theory Spec2Isabelle
  imports Complex_Main "HOL-Library.Word"
begin

unbundle bit_operations_syntax

section \<open>JavaScript values\<close>

text \<open>
  The chat client (script.js) keeps its transcript in a module-level array of plain
  objects and exchanges JSON with \<open>localStorage\<close> and with the relay. Values are
  embedded as a datatype; an object is its list of own properties. Numbers are reals
  (\<open>NaN\<close> and the infinities do not occur in the values handled here).

  A string is what it is in JavaScript: a list of UTF-16 code units, so that
  \<open>length\<close> is \<open>s.length\<close> and \<open>s ! i\<close> is \<open>s[i]\<close>. \<open>ascii\<close> turns a literal of
  the source written in ASCII into its code units; the few characters beyond ASCII in
  the constants of the script are given by their code units.
\<close>

type_synonym jstring = "16 word list"

definition cu :: "char \<Rightarrow> 16 word" where
  "cu c = of_nat (of_char c)"

definition ascii :: "string \<Rightarrow> jstring" where
  "ascii s = map cu s"

datatype jsval =
    Undefined
  | Null
  | Bool bool
  | Num real
  | Str jstring
  | Arr "jsval list"
  | Obj "(jstring \<times> jsval) list"

text \<open>
  What the source can throw. \<open>Error m\<close> is \<open>new Error(m)\<close> of the submit handler;
  the others are raised by the platform (property access on \<open>null\<close>/\<open>undefined\<close>,
  \<open>JSON.parse\<close> and \<open>res.json()\<close>, \<open>localStorage.setItem\<close>, a rejected
  \<open>fetch\<close>).
\<close>

datatype js_error =
    TypeError
  | SyntaxError
  | QuotaExceededError
  | NetworkError
  | Error jstring

text \<open>\<open>ToBoolean\<close>, as used by \<open>!x\<close>, \<open>x && y\<close> and \<open>x || y\<close>.\<close>

fun truthy :: "jsval \<Rightarrow> bool" where
  "truthy Undefined = False"
| "truthy Null = False"
| "truthy (Bool b) = b"
| "truthy (Num r) = (r \<noteq> 0)"
| "truthy (Str s) = (s \<noteq> [])"
| "truthy (Arr xs) = True"
| "truthy (Obj ps) = True"

text \<open>
  \<open>v.k\<close> for the property names the source reads (\<open>role\<close>, \<open>content\<close>,
  \<open>timestamp\<close>, \<open>choices\<close>, \<open>message\<close>, \<open>length\<close>): a \<open>TypeError\<close> on
  \<open>null\<close> and \<open>undefined\<close>, the own property of an object, \<open>undefined\<close> where
  there is none. Index properties are read by \<open>index0\<close>.
\<close>

fun member :: "jsval \<Rightarrow> jstring \<Rightarrow> js_error + jsval" where
  "member Undefined k = Inl TypeError"
| "member Null k = Inl TypeError"
| "member (Obj ps) k = Inr (case map_of ps k of None \<Rightarrow> Undefined | Some v \<Rightarrow> v)"
| "member (Arr xs) k = Inr (if k = (ascii ''length'') then Num (real (length xs)) else Undefined)"
| "member (Str s) k = Inr (if k = (ascii ''length'') then Num (real (length s)) else Undefined)"
| "member (Bool b) k = Inr Undefined"
| "member (Num r) k = Inr Undefined"

text \<open>\<open>v[0]\<close>: the first element of an array, the first character of a string.\<close>

fun index0 :: "jsval \<Rightarrow> js_error + jsval" where
  "index0 Undefined = Inl TypeError"
| "index0 Null = Inl TypeError"
| "index0 (Arr xs) = Inr (case xs of [] \<Rightarrow> Undefined | x # _ \<Rightarrow> x)"
| "index0 (Str s) = Inr (case s of [] \<Rightarrow> Undefined | c # _ \<Rightarrow> Str [c])"
| "index0 (Obj ps) = Inr (case map_of ps (ascii ''0'') of None \<Rightarrow> Undefined | Some v \<Rightarrow> v)"
| "index0 (Bool b) = Inr Undefined"
| "index0 (Num r) = Inr Undefined"

text \<open>Optional chaining \<open>v?.k\<close> and \<open>v?.[0]\<close>: \<open>undefined\<close> instead of the throw.\<close>

definition opt_member :: "jsval \<Rightarrow> jstring \<Rightarrow> jsval" where
  "opt_member v k = (case member v k of Inl e \<Rightarrow> Undefined | Inr x \<Rightarrow> x)"

definition opt_index0 :: "jsval \<Rightarrow> jsval" where
  "opt_index0 v = (case index0 v of Inl e \<Rightarrow> Undefined | Inr x \<Rightarrow> x)"

section \<open>The page: platform and state\<close>

text \<open>
  A request handed to \<open>fetch\<close> and what comes back. \<open>res.ok\<close> is the status being in
  200..299; \<open>json_body\<close> is \<open>None\<close> when \<open>res.json()\<close> rejects.
\<close>

record request =
  url :: jstring
  http_method :: jstring
  headers :: "(jstring \<times> jstring) list"
  body :: jstring

record response =
  status :: nat
  statusText :: jstring
  json_body :: "jsval option"

datatype fetch_result = Rejected | Responded response

definition res_ok :: "response \<Rightarrow> bool" where
  "res_ok r = (200 \<le> status r \<and> status r \<le> 299)"

text \<open>
  Everything the script takes from its surroundings: the JSON built-ins
  (\<open>JSON_parse\<close> is \<open>None\<close> where \<open>JSON.parse\<close> throws), whether the browser
  accepts a write to \<open>localStorage\<close> (it throws \<open>QuotaExceededError\<close> otherwise),
  the network, the message text the engine gives its own errors, and the two
  configuration globals as the handler finds them: the strings that config.js and
  secrets.js declare, \<open>None\<close> when not declared.
\<close>

record environment =
  JSON_parse :: "jstring \<Rightarrow> jsval option"
  JSON_stringify :: "jsval \<Rightarrow> jstring"
  storage_accepts :: "(jstring \<times> jstring) list \<Rightarrow> bool"
  fetch :: "request \<Rightarrow> fetch_result"
  engine_message :: "js_error \<Rightarrow> jstring"
  WORKER_URL :: "jstring option"
  OPENAI_API_KEY :: "jstring option"

text \<open>
  The chat window holds message bubbles and the "latest question" paragraph. A bubble
  keeps its row class, whether it has the \<open>loading\<close> class, the value given as its
  text and, when a time element was added, the timestamp handed to \<open>formatTime\<close>.
  The page is the module-level \<open>messages\<close>, the contents of \<open>localStorage\<close>, the
  chat window, the value of the input field, and the requests handed to \<open>fetch\<close> so
  far, in order.
\<close>

datatype bubble_class = UserRow | AssistantRow

datatype node =
    Bubble bubble_class bool jsval "jsval option"
  | LatestQuestion jsval

record page =
  messages :: "jsval list"
  storage :: "(jstring \<times> jstring) list"
  chatWindow :: "node list"
  userInput :: jstring
  requests :: "request list"

section \<open>Constants of script.js\<close>

definition systemPrompt :: jstring where
  "systemPrompt =
     (ascii ''You are a helpful assistant that ONLY answers questions about L'Or'') @
     [0xE9] @
     (ascii ''al products, routines, product recommendations, ingredients, and '') @
     (ascii ''beauty-related topics associated with L'Or'') @ [0xE9] @
     (ascii ''al brands. If the user asks about anything outside L'Or'') @
     [0xE9] @
     (ascii ''al products or beauty routines (finance, politics, unrelated brands, '') @
     (ascii ''detailed medical advice, illegal activities, etc.), politely refuse and '') @
     (ascii ''state you can only help with L'Or'') @ [0xE9] @
     (ascii ''al-related beauty/product questions. Keep answers friendly, concise, '') @
     (ascii ''and use brand-appropriate tone.'')"

definition system_message :: jsval where
  "system_message = Obj [((ascii ''role''), Str (ascii ''system'')), ((ascii ''content''), Str systemPrompt)]"

definition STORAGE_KEY :: jstring where
  "STORAGE_KEY = (ascii ''loreal_chat_history_v1'')"

definition greeting :: jstring where
  "greeting =
     [0xD83D, 0xDC4B] @ (ascii '' Hi '') @
     [0x2014] @ (ascii '' ask me about L'Or'') @
     [0xE9] @ (ascii ''al products, routines, or recommendations.'')"

definition fallback_reply :: jstring where
  "fallback_reply = (ascii ''Sorry, I could not get an answer.'')"

definition placeholder_worker_url :: jstring where
  "placeholder_worker_url = (ascii ''https://your-worker.example.workers.dev'')"

definition placeholder_api_key :: jstring where
  "placeholder_api_key = (ascii ''REPLACE_WITH_YOUR_OPENAI_KEY'')"

definition openai_url :: jstring where
  "openai_url = (ascii ''https://api.openai.com/v1/chat/completions'')"

definition config_missing_text :: jstring where
  "config_missing_text =
     (ascii ''Configuration missing: set WORKER_URL in secrets.js to your Cloudflare Worker URL.'')"

section \<open>localStorage\<close>

definition getItem :: "jstring \<Rightarrow> (jstring \<times> jstring) list \<Rightarrow> jstring option" where
  "getItem k s = map_of s k"

definition removeItem :: "jstring \<Rightarrow> (jstring \<times> jstring) list \<Rightarrow> (jstring \<times> jstring) list" where
  "removeItem k s = filter (\<lambda>p. fst p \<noteq> k) s"

fun put :: "jstring \<Rightarrow> jstring \<Rightarrow> (jstring \<times> jstring) list \<Rightarrow> (jstring \<times> jstring) list" where
  "put k v [] = [(k, v)]"
| "put k v (p # ps) = (if fst p = k then (k, v) # ps else p # put k v ps)"

definition setItem ::
  "environment \<Rightarrow> jstring \<Rightarrow> jstring \<Rightarrow> (jstring \<times> jstring) list
     \<Rightarrow> js_error + (jstring \<times> jstring) list" where
  "setItem env k v s =
     (if storage_accepts env (put k v s) then Inr (put k v s) else Inl QuotaExceededError)"

section \<open>Bubbles\<close>

text \<open>
  \<open>appendUserBubble(text, ts)\<close> and \<open>appendAssistantBubble(text, options)\<close>: a time
  element is added only for a truthy timestamp, and never to a loading bubble.
\<close>

definition appendUserBubble :: "jsval \<Rightarrow> jsval \<Rightarrow> node list \<Rightarrow> node list" where
  "appendUserBubble text ts w =
     w @ [Bubble UserRow False text (if truthy ts then Some ts else None)]"

definition appendAssistantBubble :: "jsval \<Rightarrow> bool \<Rightarrow> jsval \<Rightarrow> node list \<Rightarrow> node list" where
  "appendAssistantBubble text loading ts w =
     w @ [Bubble AssistantRow loading text
            (if \<not> loading \<and> truthy ts then Some ts else None)]"

fun remove_latest :: "node list \<Rightarrow> node list" where
  "remove_latest [] = []"
| "remove_latest (LatestQuestion t # ns) = ns"
| "remove_latest (n # ns) = n # remove_latest ns"

definition updateLatestQuestionDisplay :: "jsval \<Rightarrow> node list \<Rightarrow> node list" where
  "updateLatestQuestionDisplay text w = remove_latest w @ [LatestQuestion text]"

section \<open>Conversation history\<close>

text \<open>
  \<open>m.role === 'user' || m.role === 'assistant'\<close>, the filter of \<open>saveHistory\<close>; it
  throws on an entry that is \<open>null\<close> or \<open>undefined\<close>.
\<close>

definition is_persisted :: "jsval \<Rightarrow> js_error + bool" where
  "is_persisted m =
     (case member m (ascii ''role'') of
        Inl e \<Rightarrow> Inl e
      | Inr r \<Rightarrow> Inr (r = Str (ascii ''user'') \<or> r = Str (ascii ''assistant'')))"

fun filter_persisted :: "jsval list \<Rightarrow> js_error + jsval list" where
  "filter_persisted [] = Inr []"
| "filter_persisted (m # ms) =
     (case is_persisted m of
        Inl e \<Rightarrow> Inl e
      | Inr keep \<Rightarrow>
          (case filter_persisted ms of
             Inl e \<Rightarrow> Inl e
           | Inr rest \<Rightarrow> Inr (if keep then m # rest else rest)))"

text \<open>\<open>messages.push(m)\<close>.\<close>

definition push :: "jsval \<Rightarrow> page \<Rightarrow> page" where
  "push m st = st\<lparr>messages := messages st @ [m]\<rparr>"

text \<open>
  \<open>loadHistory\<close>: the restored array or \<open>null\<close> (\<open>None\<close>), and the storage it
  leaves. Only the \<open>catch\<close> branch, reached when \<open>JSON.parse\<close> throws, removes the
  record.
\<close>

definition loadHistory ::
  "environment \<Rightarrow> (jstring \<times> jstring) list \<Rightarrow> jsval list option \<times> (jstring \<times> jstring) list" where
  "loadHistory env s =
     (case getItem STORAGE_KEY s of
        None \<Rightarrow> (None, s)
      | Some raw \<Rightarrow>
          if raw = [] then (None, s)
          else (case JSON_parse env raw of
                  None \<Rightarrow> (None, removeItem STORAGE_KEY s)
                | Some (Arr xs) \<Rightarrow> (Some xs, s)
                | Some other \<Rightarrow> (None, s)))"

text \<open>
  \<open>saveHistory\<close>: whatever is thrown inside (by the filter, by \<open>setItem\<close>) is caught
  and only logged, so the page is left as it was.
\<close>

definition saveHistory :: "environment \<Rightarrow> page \<Rightarrow> page" where
  "saveHistory env st =
     (case filter_persisted (messages st) of
        Inl e \<Rightarrow> st
      | Inr toSave \<Rightarrow>
          (case setItem env STORAGE_KEY (JSON_stringify env (Arr toSave)) (storage st) of
             Inl e \<Rightarrow> st
           | Inr s' \<Rightarrow> st\<lparr>storage := s'\<rparr>))"

definition clearHistory :: "page \<Rightarrow> page" where
  "clearHistory st =
     st\<lparr>storage := removeItem STORAGE_KEY (storage st),
        messages := [system_message],
        chatWindow := appendAssistantBubble (Str greeting) False Undefined []\<rparr>"

text \<open>
  The \<open>forEach\<close> that renders the restored messages; \<open>m.role\<close> throws on a
  \<open>null\<close> entry, and nothing catches it at the top level of the script.
\<close>

fun render_restored :: "jsval list \<Rightarrow> node list \<Rightarrow> js_error + node list" where
  "render_restored [] w = Inr w"
| "render_restored (m # ms) w =
     (case member m (ascii ''role'') of
        Inl e \<Rightarrow> Inl e
      | Inr r \<Rightarrow>
          if r = Str (ascii ''user'') then
            render_restored ms
              (updateLatestQuestionDisplay (opt_member m (ascii ''content''))
                 (appendUserBubble (opt_member m (ascii ''content'')) (opt_member m (ascii ''timestamp'')) w))
          else if r = Str (ascii ''assistant'') then
            render_restored ms
              (appendAssistantBubble (opt_member m (ascii ''content'')) False
                 (opt_member m (ascii ''timestamp'')) w)
          else render_restored ms w)"

text \<open>
  A page as the script finds it when it starts: the transcript holds the system message,
  the chat window has been emptied, \<open>localStorage\<close> is what earlier sessions left.
\<close>

definition new_session :: "(jstring \<times> jstring) list \<Rightarrow> page" where
  "new_session s =
     \<lparr>messages = [system_message], storage = s, chatWindow = [], userInput = [],
      requests = []\<rparr>"

text \<open>Start-up (\<open>const restored = loadHistory(); if (restored && restored.length) ...\<close>).\<close>

definition init :: "environment \<Rightarrow> page \<Rightarrow> js_error + page" where
  "init env st =
     (case loadHistory env (storage st) of
        (restored, s') \<Rightarrow>
          (case restored of
             Some (x # xs) \<Rightarrow>
               (case render_restored (x # xs) (chatWindow st) of
                  Inl e \<Rightarrow> Inl e
                | Inr w \<Rightarrow>
                    Inr (st\<lparr>storage := s', messages := system_message # x # xs,
                            chatWindow := w\<rparr>))
           | other \<Rightarrow>
               Inr (st\<lparr>storage := s',
                       chatWindow :=
                         appendAssistantBubble (Str greeting) False Undefined (chatWindow st)\<rparr>)))"

section \<open>The submit handler\<close>

text \<open>
  The code units that \<open>String.prototype.trim\<close> strips and \<open>parseInt\<close> skips: the
  ECMAScript \<open>WhiteSpace\<close> (tab, vertical tab, form feed, U+FEFF and the space
  separators U+0020, U+00A0, U+1680, U+2000 to U+200A, U+202F, U+205F, U+3000) and
  \<open>LineTerminator\<close> (line feed, carriage return, U+2028, U+2029).
\<close>

definition is_space :: "16 word \<Rightarrow> bool" where
  "is_space c =
     (c \<in> set [0x0009, 0x000A, 0x000B, 0x000C, 0x000D, 0x0020, 0x00A0, 0x1680,
                0x2000, 0x2001, 0x2002, 0x2003, 0x2004, 0x2005, 0x2006, 0x2007,
                0x2008, 0x2009, 0x200A, 0x2028, 0x2029, 0x202F, 0x205F, 0x3000, 0xFEFF])"

definition trim :: "jstring \<Rightarrow> jstring" where
  "trim s = rev (dropWhile is_space (rev (dropWhile is_space s)))"

text \<open>A natural number in decimal, as the template literal prints \<open>res.status\<close>.\<close>

fun show_nat :: "nat \<Rightarrow> jstring" where
  "show_nat n =
     (if n < 10 then [(ascii ''0123456789'') ! n]
      else show_nat (n div 10) @ [(ascii ''0123456789'') ! (n mod 10)])"

declare show_nat.simps [simp del]

definition user_message :: "jstring \<Rightarrow> real \<Rightarrow> jsval" where
  "user_message text ts =
     Obj [((ascii ''role''), Str (ascii ''user'')), ((ascii ''content''), Str text), ((ascii ''timestamp''), Num ts)]"

definition assistant_message :: "jsval \<Rightarrow> real \<Rightarrow> jsval" where
  "assistant_message r ts =
     Obj [((ascii ''role''), Str (ascii ''assistant'')), ((ascii ''content''), r), ((ascii ''timestamp''), Num ts)]"

text \<open>
  \<open>messages.map(m => ({ role: m.role, content: m.content }))\<close> and the payload built
  from it. The arrow function throws on a \<open>null\<close> or \<open>undefined\<close> entry.
\<close>

definition api_message :: "jsval \<Rightarrow> js_error + jsval" where
  "api_message m =
     (case member m (ascii ''role'') of
        Inl e \<Rightarrow> Inl e
      | Inr r \<Rightarrow>
          (case member m (ascii ''content'') of
             Inl e \<Rightarrow> Inl e
           | Inr c \<Rightarrow> Inr (Obj [((ascii ''role''), r), ((ascii ''content''), c)])))"

fun apiMessages :: "jsval list \<Rightarrow> js_error + jsval list" where
  "apiMessages [] = Inr []"
| "apiMessages (m # ms) =
     (case api_message m of
        Inl e \<Rightarrow> Inl e
      | Inr a \<Rightarrow> (case apiMessages ms of Inl e \<Rightarrow> Inl e | Inr as \<Rightarrow> Inr (a # as)))"

definition payload :: "jsval list \<Rightarrow> jsval" where
  "payload api = Obj [((ascii ''messages''), Arr api)]"

text \<open>\<open>data?.choices?.[0]?.message?.content\<close> and the \<open>reply\<close> taken from it.\<close>

definition content_path :: "jsval \<Rightarrow> jsval" where
  "content_path data =
     opt_member (opt_member (opt_index0 (opt_member data (ascii ''choices''))) (ascii ''message'')) (ascii ''content'')"

definition reply :: "jsval \<Rightarrow> jsval" where
  "reply data =
     (if truthy (content_path data) then content_path data else Str fallback_reply)"

text \<open>
  The two conditions of the handler's \<open>if\<close> / \<open>else if\<close>: the endpoint, or the
  key, when it is declared, truthy and not the placeholder.
\<close>

definition relay_endpoint :: "environment \<Rightarrow> jstring option" where
  "relay_endpoint env =
     (case WORKER_URL env of
        None \<Rightarrow> None
      | Some u \<Rightarrow> if u \<noteq> [] \<and> u \<noteq> placeholder_worker_url then Some u else None)"

definition direct_key :: "environment \<Rightarrow> jstring option" where
  "direct_key env =
     (case OPENAI_API_KEY env of
        None \<Rightarrow> None
      | Some k \<Rightarrow> if k \<noteq> [] \<and> k \<noteq> placeholder_api_key then Some k else None)"

definition relay_request :: "environment \<Rightarrow> jstring \<Rightarrow> jsval list \<Rightarrow> request" where
  "relay_request env u api =
     \<lparr>url = u, http_method = (ascii ''POST''),
      headers = [((ascii ''Content-Type''), (ascii ''application/json''))],
      body = JSON_stringify env (payload api)\<rparr>"

definition direct_request :: "environment \<Rightarrow> jstring \<Rightarrow> jsval list \<Rightarrow> request" where
  "direct_request env k api =
     \<lparr>url = openai_url, http_method = (ascii ''POST''),
      headers = [((ascii ''Content-Type''), (ascii ''application/json'')),
                 ((ascii ''Authorization''), (ascii ''Bearer '') @ k)],
      body = JSON_stringify env (Obj [((ascii ''model''), Str (ascii ''gpt-4o'')), ((ascii ''messages''), Arr api)])\<rparr>"

text \<open>
  \<open>await fetch(...)\<close>, the \<open>if (!res.ok) throw new Error(...)\<close> after it and
  \<open>await res.json()\<close>; \<open>label\<close> is \<open>'Worker error: '\<close> or \<open>'OpenAI error: '\<close>.
  The request is recorded in the page.
\<close>

definition post :: "environment \<Rightarrow> jstring \<Rightarrow> request \<Rightarrow> page \<Rightarrow> (js_error + jsval) \<times> page" where
  "post env label rq st =
     (let st' = st\<lparr>requests := requests st @ [rq]\<rparr> in
      case fetch env rq of
        Rejected \<Rightarrow> (Inl NetworkError, st')
      | Responded res \<Rightarrow>
          if \<not> res_ok res then
            (Inl (Error (label @ show_nat (status res) @ (ascii '' '') @ statusText res)), st')
          else (case json_body res of
                  None \<Rightarrow> (Inl SyntaxError, st')
                | Some data \<Rightarrow> (Inr data, st')))"

text \<open>
  What both branches do with the parsed body: the loading bubble (at position
  \<open>idx\<close> of the chat window) gets the reply and a time element, the assistant message
  is pushed and the history saved.
\<close>

definition deliver_reply :: "environment \<Rightarrow> nat \<Rightarrow> real \<Rightarrow> jsval \<Rightarrow> page \<Rightarrow> page" where
  "deliver_reply env idx assistantTs data st =
     saveHistory env
       (push (assistant_message (reply data) assistantTs)
          (st\<lparr>chatWindow :=
                (chatWindow st)[idx :=
                   Bubble AssistantRow False (reply data) (Some (Num assistantTs))]\<rparr>))"

text \<open>The body of the handler's \<open>try\<close>: the page it leaves and what it threw, if anything.\<close>

definition try_block :: "environment \<Rightarrow> nat \<Rightarrow> real \<Rightarrow> page \<Rightarrow> page \<times> js_error option" where
  "try_block env idx assistantTs st =
     (case apiMessages (messages st) of
        Inl e \<Rightarrow> (st, Some e)
      | Inr api \<Rightarrow>
          (case relay_endpoint env of
             Some u \<Rightarrow>
               (case post env (ascii ''Worker error: '') (relay_request env u api) st of
                  (Inl e, st') \<Rightarrow> (st', Some e)
                | (Inr data, st') \<Rightarrow> (deliver_reply env idx assistantTs data st', None))
           | None \<Rightarrow>
               (case direct_key env of
                  Some k \<Rightarrow>
                    (case post env (ascii ''OpenAI error: '') (direct_request env k api) st of
                       (Inl e, st') \<Rightarrow> (st', Some e)
                     | (Inr data, st') \<Rightarrow> (deliver_reply env idx assistantTs data st', None))
                | None \<Rightarrow>
                    (st\<lparr>chatWindow :=
                          (chatWindow st)[idx :=
                             Bubble AssistantRow False (Str config_missing_text) None]\<rparr>,
                     None))))"

text \<open>\<open>err?.message || 'Request failed'\<close> of the \<open>catch\<close>.\<close>

definition error_text :: "environment \<Rightarrow> js_error \<Rightarrow> jstring" where
  "error_text env e =
     (let m = (case e of Error m \<Rightarrow> m | other \<Rightarrow> engine_message env other)
      in if m \<noteq> [] then m else (ascii ''Request failed''))"

text \<open>
  The submit handler. \<open>userTs\<close> and \<open>assistantTs\<close> are the two readings of
  \<open>Date.now()\<close>. An input that is empty after trimming returns at once; otherwise the
  \<open>finally\<close> clears the input field.
\<close>

definition submit :: "environment \<Rightarrow> real \<Rightarrow> real \<Rightarrow> page \<Rightarrow> page" where
  "submit env userTs assistantTs st =
     (let text = trim (userInput st) in
      if text = [] then st
      else
        let st1 = saveHistory env
                    (push (user_message text userTs)
                       (st\<lparr>chatWindow :=
                             updateLatestQuestionDisplay (Str text)
                               (appendUserBubble (Str text) (Num userTs) (chatWindow st))\<rparr>));
            idx = length (chatWindow st1);
            st2 = st1\<lparr>chatWindow :=
                        appendAssistantBubble (Str (ascii ''Thinking...'')) True Undefined (chatWindow st1)\<rparr>;
            st3 = (case try_block env idx assistantTs st2 of
                     (st', None) \<Rightarrow> st'
                   | (st', Some err) \<Rightarrow>
                       st'\<lparr>chatWindow :=
                             (chatWindow st')[idx :=
                                Bubble AssistantRow False
                                  (Str ((ascii ''Error: '') @ error_text env err)) None]\<rparr>)
        in st3\<lparr>userInput := []\<rparr>)"

section \<open>Colour arithmetic\<close>

text \<open>
  A JavaScript number that may be \<open>NaN\<close>. Colour channels are integers or \<open>NaN\<close>;
  luminances and ratios are reals or \<open>NaN\<close>. Arithmetic on reals is exact here: the
  rounding of IEEE doubles is not part of the model.
\<close>

datatype 'a number = NaN | Fin 'a

text \<open>\<open>a <= b\<close> on numbers: false as soon as one side is \<open>NaN\<close>.\<close>

fun num_le :: "real number \<Rightarrow> real number \<Rightarrow> bool" where
  "num_le (Fin a) (Fin b) = (a \<le> b)"
| "num_le a b = False"

text \<open>\<open>a < b\<close> on numbers: false as soon as one side is \<open>NaN\<close>.\<close>

fun num_lt :: "real number \<Rightarrow> real number \<Rightarrow> bool" where
  "num_lt (Fin a) (Fin b) = (a < b)"
| "num_lt a b = False"

text \<open>\<open>s.replace('#', '')\<close>: the first \<open>#\<close> is dropped.\<close>

fun remove_first :: "16 word \<Rightarrow> jstring \<Rightarrow> jstring" where
  "remove_first c [] = []"
| "remove_first c (x # xs) = (if x = c then xs else x # remove_first c xs)"

definition hex_table :: "(16 word \<times> int) list" where
  "hex_table =
     zip (ascii ''0123456789abcdefABCDEF'')
         [0, 1, 2, 3, 4, 5, 6, 7, 8, 9, 10, 11, 12, 13, 14, 15, 10, 11, 12, 13, 14, 15]"

definition hex_digit :: "16 word \<Rightarrow> int option" where
  "hex_digit c = map_of hex_table c"

definition is_hex :: "16 word \<Rightarrow> bool" where
  "is_hex c = (hex_digit c \<noteq> None)"

definition hex_value :: "jstring \<Rightarrow> int" where
  "hex_value ds = foldl (\<lambda>acc c. 16 * acc + (case hex_digit c of Some d \<Rightarrow> d | None \<Rightarrow> 0)) 0 ds"

text \<open>
  \<open>parseInt(s, 16)\<close> before the conversion to a double: leading white space is
  skipped, then an optional sign and an optional \<open>0x\<close>/\<open>0X\<close>, and the longest prefix
  of hexadecimal digits is read; \<open>None\<close> is \<open>NaN\<close> (no digit).
\<close>

definition parseInt16 :: "jstring \<Rightarrow> int option" where
  "parseInt16 s =
     (let s1 = dropWhile is_space s;
          neg = (take 1 s1 = (ascii ''-''));
          s2 = (if take 1 s1 = (ascii ''-'') \<or> take 1 s1 = (ascii ''+'') then drop 1 s1 else s1);
          s3 = (if take 2 s2 = (ascii ''0x'') \<or> take 2 s2 = (ascii ''0X'') then drop 2 s2 else s2);
          z = takeWhile is_hex s3
      in if z = [] then None
         else Some (if neg then - hex_value z else hex_value z))"

text \<open>
  The double nearest to an integer (ties to even, 53 significant bits); \<open>None\<close> when
  the magnitude overflows to an infinity.
\<close>

fun bit_length :: "nat \<Rightarrow> nat" where
  "bit_length n = (if n = 0 then 0 else Suc (bit_length (n div 2)))"

declare bit_length.simps [simp del]

definition to_double :: "int \<Rightarrow> int option" where
  "to_double n =
     (if \<bar>n\<bar> < 2 ^ 53 then Some n
      else
        let a = nat \<bar>n\<bar>; e = bit_length a - 53;
            q = a div 2 ^ e; r = a mod 2 ^ e; h = 2 ^ (e - 1);
            q' = (if h < r \<or> (r = h \<and> odd q) then q + 1 else q);
            d = q' * 2 ^ e
        in if 2 ^ 1024 \<le> d then None else Some (sgn n * int d))"

text \<open>
  \<open>ToInt32\<close> of what \<open>parseInt\<close> returned, as \<open>>>\<close> applies it: \<open>NaN\<close> and the
  infinities become 0, any other value wraps into 32 signed bits.
\<close>

definition toInt32 :: "int option \<Rightarrow> int" where
  "toInt32 p =
     (case p of
        None \<Rightarrow> 0
      | Some n \<Rightarrow> (case to_double n of None \<Rightarrow> 0 | Some d \<Rightarrow> signed_take_bit 31 d))"

text \<open>
  \<open>hexToRgb\<close>. It throws when \<open>hex\<close> is not a string (no \<open>replace\<close> method);
  \<open>hex_channels\<close> is its body on a string. In the three-character branch each channel
  is \<open>parseInt\<close> of a doubled character, a number below 256 or \<open>NaN\<close>; otherwise the
  channels are bytes of \<open>bigint\<close>.
\<close>

definition doubled :: "16 word \<Rightarrow> int number" where
  "doubled c = (case parseInt16 [c, c] of None \<Rightarrow> NaN | Some n \<Rightarrow> Fin n)"

definition hex_channels :: "jstring \<Rightarrow> int number \<times> int number \<times> int number" where
  "hex_channels s =
     (let h = trim (remove_first (cu CHR ''#'') s);
          bigint = toInt32 (parseInt16 h)
      in if length h = 3 then (doubled (h ! 0), doubled (h ! 1), doubled (h ! 2))
         else (Fin (drop_bit 16 bigint AND 255),
               Fin (drop_bit 8 bigint AND 255),
               Fin (bigint AND 255)))"

definition hexToRgb :: "jsval \<Rightarrow> js_error + int number \<times> int number \<times> int number" where
  "hexToRgb hex = (case hex of Str s \<Rightarrow> Inr (hex_channels s) | other \<Rightarrow> Inl TypeError)"

text \<open>\<open>relativeLuminance\<close>: the channel curve and the weighted sum.\<close>

definition linearize :: "real \<Rightarrow> real" where
  "linearize c = (if c \<le> 0.03928 then c / 12.92 else ((c + 0.055) / 1.055) powr 2.4)"

fun relativeLuminance :: "int number \<times> int number \<times> int number \<Rightarrow> real number" where
  "relativeLuminance (Fin r, Fin g, Fin b) =
     Fin (0.2126 * linearize (real_of_int r / 255) + 0.7152 * linearize (real_of_int g / 255)
          + 0.0722 * linearize (real_of_int b / 255))"
| "relativeLuminance other = NaN"

text \<open>
  \<open>contrastRatio\<close>; \<open>None\<close> is the \<open>null\<close> of its \<open>catch\<close>. \<open>Math.max\<close> and
  \<open>Math.min\<close> give \<open>NaN\<close> when an argument is \<open>NaN\<close>.
\<close>

fun ratio_of :: "real number \<Rightarrow> real number \<Rightarrow> real number" where
  "ratio_of (Fin a) (Fin b) = Fin ((max a b + 0.05) / (min a b + 0.05))"
| "ratio_of a b = NaN"

definition contrastRatio :: "jsval \<Rightarrow> jsval \<Rightarrow> real number option" where
  "contrastRatio hexA hexB =
     (case hexToRgb hexA of
        Inl e \<Rightarrow> None
      | Inr a \<Rightarrow>
          (case hexToRgb hexB of
             Inl e \<Rightarrow> None
           | Inr b \<Rightarrow> Some (ratio_of (relativeLuminance a) (relativeLuminance b))))"

text \<open>\<open>rgbToHex\<close>: \<open>v.toString(16).padStart(2, '0')\<close> for each channel.\<close>

fun toString16 :: "nat \<Rightarrow> jstring" where
  "toString16 n =
     (if n < 16 then [(ascii ''0123456789abcdef'') ! n]
      else toString16 (n div 16) @ [(ascii ''0123456789abcdef'') ! (n mod 16)])"

declare toString16.simps [simp del]

definition padStart2 :: "jstring \<Rightarrow> jstring" where
  "padStart2 s = replicate (2 - length s) (cu CHR ''0'') @ s"

fun channel_text :: "int number \<Rightarrow> jstring" where
  "channel_text NaN = (ascii ''NaN'')"
| "channel_text (Fin v) =
     padStart2 (if v < 0 then (cu CHR ''-'') # toString16 (nat (- v)) else toString16 (nat v))"

definition rgbToHex :: "int number \<times> int number \<times> int number \<Rightarrow> jstring" where
  "rgbToHex rgb =
     (case rgb of (r, g, b) \<Rightarrow> (cu CHR ''#'') # channel_text r @ channel_text g @ channel_text b)"

text \<open>
  \<open>clamp(a + (b - a) * t)\<close> with the default bounds 0 and 255; \<open>Math.round\<close> is
  \<open>\<lfloor>x + 1/2\<rfloor>\<close>.
\<close>

fun mix :: "int number \<Rightarrow> int number \<Rightarrow> real \<Rightarrow> int number" where
  "mix (Fin a) (Fin b) t =
     Fin (max 0 (min 255 \<lfloor>real_of_int a + (real_of_int b - real_of_int a) * t + 1 / 2\<rfloor>))"
| "mix a b t = NaN"

definition lerpColor :: "jsval \<Rightarrow> jsval \<Rightarrow> real \<Rightarrow> js_error + jstring" where
  "lerpColor hexA hexB t =
     (case hexToRgb hexA of
        Inl e \<Rightarrow> Inl e
      | Inr (a0, a1, a2) \<Rightarrow>
          (case hexToRgb hexB of
             Inl e \<Rightarrow> Inl e
           | Inr (b0, b1, b2) \<Rightarrow> Inr (rgbToHex (mix a0 b0 t, mix a1 b1 t, mix a2 b2 t))))"

definition darkenTowardsBlack :: "jsval \<Rightarrow> real \<Rightarrow> js_error + jstring" where
  "darkenTowardsBlack hex step = lerpColor hex (Str (ascii ''#000000'')) step"

section \<open>Automatic contrast correction\<close>

text \<open>
  \<open>contrastRatio(fg, bg) || 0\<close>: \<open>null\<close>, \<open>NaN\<close> and 0 all give 0.
\<close>

fun ratio_or_zero :: "real number option \<Rightarrow> real" where
  "ratio_or_zero (Some (Fin x)) = x"
| "ratio_or_zero other = 0"

text \<open>\<open>(value || '').trim() || fallback\<close>, the way every style value is read.\<close>

definition or_default :: "jstring \<Rightarrow> jstring \<Rightarrow> jstring" where
  "or_default v d = (if trim v \<noteq> [] then trim v else d)"

text \<open>
  The variables of the \<open>forEach\<close> callback of \<open>autoFixContrast\<close>, together with the
  inline style of the root element it writes to. What
  \<open>getComputedStyle(document.documentElement).getPropertyValue\<close> answers is decided by
  the browser from the style sheets and that inline style: it is the parameter
  \<open>gcs\<close> of the definitions below.
\<close>

record fix_state =
  fg :: jstring
  ratio :: real
  attempts :: nat
  style :: "(jstring \<times> jstring) list"
  changed :: bool

text \<open>\<open>Math.min(1, 0.06 + attempts * 0.02)\<close>.\<close>

definition step_size :: "nat \<Rightarrow> real" where
  "step_size n = min 1 (0.06 + real n * 0.02)"

text \<open>
  One run of the body of the \<open>while\<close> loop. \<open>darkenTowardsBlack\<close> does not throw on
  a string, so the \<open>Inl\<close> branch leaves the state as it is.
\<close>

definition loop_body ::
  "((jstring \<times> jstring) list \<Rightarrow> jstring \<Rightarrow> jstring) \<Rightarrow> jstring \<Rightarrow> jstring \<Rightarrow> jstring
     \<Rightarrow> fix_state \<Rightarrow> fix_state" where
  "loop_body gcs fgVar bgVar bg s =
     (case darkenTowardsBlack (Str (fg s)) (step_size (attempts s)) of
        Inl e \<Rightarrow> s
      | Inr fg' \<Rightarrow>
          let style' = put fgVar fg' (style s);
              newFg = or_default (gcs style' fgVar) fg';
              newBg = or_default (gcs style' bgVar) bg
          in \<lparr>fg = fg', ratio = ratio_or_zero (contrastRatio (Str newFg) (Str newBg)),
              attempts = attempts s + 1, style = style', changed = True\<rparr>)"

function contrast_loop ::
  "((jstring \<times> jstring) list \<Rightarrow> jstring \<Rightarrow> jstring) \<Rightarrow> real \<Rightarrow> jstring \<Rightarrow> jstring \<Rightarrow> jstring
     \<Rightarrow> fix_state \<Rightarrow> fix_state" where
  "contrast_loop gcs target fgVar bgVar bg s =
     (if ratio s < target \<and> attempts s < 24
      then contrast_loop gcs target fgVar bgVar bg (loop_body gcs fgVar bgVar bg s)
      else s)"
  by pat_completeness auto

termination
proof (relation "measure (\<lambda>(gcs, target, fgVar, bgVar, bg, s). 24 - attempts s)")
  show "wf (measure (\<lambda>(gcs, target, fgVar, bgVar, bg, s). 24 - attempts s))"
    by simp
next
  fix gcs :: "(jstring \<times> jstring) list \<Rightarrow> jstring \<Rightarrow> jstring"
    and target :: real and fgVar bgVar bg :: jstring and s :: fix_state
  assume "ratio s < target \<and> attempts s < 24"
  moreover have "attempts (loop_body gcs fgVar bgVar bg s) = attempts s + 1"
    by (simp add: loop_body_def darkenTowardsBlack_def lerpColor_def hexToRgb_def Let_def
        split: prod.splits)
  ultimately show "((gcs, target, fgVar, bgVar, bg, loop_body gcs fgVar bgVar bg s),
                    (gcs, target, fgVar, bgVar, bg, s))
                   \<in> measure (\<lambda>(gcs, target, fgVar, bgVar, bg, s). 24 - attempts s)"
    by auto
qed

declare contrast_loop.simps [simp del]

text \<open>The callback for one pair: read both colours, set up the loop variables, loop.\<close>

definition start_pair ::
  "((jstring \<times> jstring) list \<Rightarrow> jstring \<Rightarrow> jstring) \<Rightarrow> jstring \<Rightarrow> jstring
     \<Rightarrow> (jstring \<times> jstring) list \<Rightarrow> bool \<Rightarrow> fix_state" where
  "start_pair gcs fgVar bgVar st ch =
     (let fg0 = or_default (gcs st fgVar) (ascii ''#222222'');
          bg0 = or_default (gcs st bgVar) (ascii ''#ffffff'')
      in \<lparr>fg = fg0, ratio = ratio_or_zero (contrastRatio (Str fg0) (Str bg0)),
          attempts = 0, style = st, changed = ch\<rparr>)"

definition fix_pair ::
  "((jstring \<times> jstring) list \<Rightarrow> jstring \<Rightarrow> jstring) \<Rightarrow> real \<Rightarrow> jstring \<Rightarrow> jstring
     \<Rightarrow> (jstring \<times> jstring) list \<Rightarrow> bool \<Rightarrow> fix_state" where
  "fix_pair gcs target fgVar bgVar st ch =
     contrast_loop gcs target fgVar bgVar (or_default (gcs st bgVar) (ascii ''#ffffff''))
       (start_pair gcs fgVar bgVar st ch)"

text \<open>
  \<open>autoFixContrast(target)\<close> up to the point where the adjustments are written to
  \<open>localStorage\<close>: the inline style after both pairs, and the \<open>changed\<close> flag.
\<close>

definition autoFixContrast ::
  "((jstring \<times> jstring) list \<Rightarrow> jstring \<Rightarrow> jstring) \<Rightarrow> real
     \<Rightarrow> (jstring \<times> jstring) list \<Rightarrow> (jstring \<times> jstring) list \<times> bool" where
  "autoFixContrast gcs target st =
     (let s1 = fix_pair gcs target (ascii ''--text'') (ascii ''--brand-muted'') st False;
          s2 = fix_pair gcs target (ascii ''--text'') (ascii ''--assistant-bg'') (style s1) (changed s1)
      in (style s2, changed s2))"

text \<open>The luminance of a colour string, as \<open>contrastRatio\<close> computes it.\<close>

definition luminance :: "jstring \<Rightarrow> real number" where
  "luminance hex = (case hexToRgb (Str hex) of Inl e \<Rightarrow> NaN | Inr rgb \<Rightarrow> relativeLuminance rgb)"

text \<open>
  A browser for the examples: the inline style wins, the style sheet gives
  \<open>--text\<close> the colour in \<open>sheet_text\<close> and a white background.
\<close>

definition example_gcs :: "jstring \<Rightarrow> (jstring \<times> jstring) list \<Rightarrow> jstring \<Rightarrow> jstring" where
  "example_gcs sheet_text st name =
     (case map_of st name of
        Some v \<Rightarrow> v
      | None \<Rightarrow> if name = (ascii ''--text'') then sheet_text else (ascii ''#ffffff''))"

section \<open>Environments for the examples\<close>

text \<open>
  The examples below run the script in a browser whose storage accepts every write and
  whose network answers every request in the same way. \<open>example_parse\<close> and
  \<open>example_stringify\<close> are \<open>JSON.parse\<close> and \<open>JSON.stringify\<close> on the texts and
  values of the examples; \<open>example_parse\<close> rejects every other text.
\<close>

definition example_user :: jsval where
  "example_user = user_message (ascii ''Hi'') 1700000000000"

definition example_assistant :: jsval where
  "example_assistant = assistant_message (Str (ascii ''Use X'')) 1700000000500"

definition example_history_text :: jstring where
  \<open>example_history_text =
     ascii (''[{"role":"user","content":"Hi","timestamp":1700000000000},'' @
            ''{"role":"assistant","content":"Use X","timestamp":1700000000500}]'')\<close>

definition example_parse :: "jstring \<Rightarrow> jsval option" where
  "example_parse s =
     (if s = (ascii ''{}'') then Some (Obj [])
      else if s = example_history_text then Some (Arr [example_user, example_assistant])
      else None)"

definition example_stringify :: "jsval \<Rightarrow> jstring" where
  \<open>example_stringify v =
     (if v = Arr [example_user, example_assistant] then example_history_text
      else if v = Arr [example_user] then
        (ascii ''[{"role":"user","content":"Hi","timestamp":1700000000000}]'')
      else if v = Arr [] then (ascii ''[]'')
      else (ascii ''null''))\<close>

definition example_env ::
  "(request \<Rightarrow> fetch_result) \<Rightarrow> jstring option \<Rightarrow> jstring option \<Rightarrow> environment" where
  "example_env f w k =
     \<lparr>JSON_parse = example_parse, JSON_stringify = example_stringify,
      storage_accepts = (\<lambda>s. True), fetch = f,
      engine_message = (\<lambda>e. (ascii ''Failed to fetch'')),
      WORKER_URL = w, OPENAI_API_KEY = k\<rparr>"

definition answer_status :: "nat \<Rightarrow> jstring \<Rightarrow> request \<Rightarrow> fetch_result" where
  "answer_status n t rq = Responded \<lparr>status = n, statusText = t, json_body = None\<rparr>"

definition answer_json :: "jsval \<Rightarrow> request \<Rightarrow> fetch_result" where
  "answer_json data rq = Responded \<lparr>status = 200, statusText = (ascii ''OK''), json_body = Some data\<rparr>"

definition example_worker :: jstring where
  "example_worker = (ascii ''https://loreal-worker.sustaitah03.workers.dev/'')"

definition example_page :: "jstring \<Rightarrow> page" where
  "example_page t = (new_session [])\<lparr>userInput := t\<rparr>"

section \<open>Auxiliary definitions for the statements\<close>

text \<open>
  What \<open>apiMessages\<close> computes on a transcript without \<open>null\<close> entries, the
  request the handler sends for the configuration at hand, and the label of the error it
  throws on a failed response.
\<close>

definition stripped :: "jsval list \<Rightarrow> jsval list" where
  "stripped ms = map (\<lambda>m. Obj [((ascii ''role''), opt_member m (ascii ''role'')), ((ascii ''content''), opt_member m (ascii ''content''))]) ms"

definition route_label :: "environment \<Rightarrow> jstring" where
  "route_label env = (if relay_endpoint env \<noteq> None then (ascii ''Worker error: '') else (ascii ''OpenAI error: ''))"

definition route_request :: "environment \<Rightarrow> jsval list \<Rightarrow> request option" where
  "route_request env api =
     (case relay_endpoint env of
        Some u \<Rightarrow> Some (relay_request env u api)
      | None \<Rightarrow> (case direct_key env of Some k \<Rightarrow> Some (direct_request env k api) | None \<Rightarrow> None))"

text \<open>Response bodies of the examples.\<close>

definition use_x_body :: jsval where
  "use_x_body = Obj [((ascii ''choices''), Arr [Obj [((ascii ''message''), Obj [((ascii ''content''), Str (ascii ''Use X''))])]])]"

definition empty_content_body :: jsval where
  "empty_content_body = Obj [((ascii ''choices''), Arr [Obj [((ascii ''message''), Obj [((ascii ''content''), Str [])])]])]"

text \<open>
  For the colour statements: the hexadecimal digit of a number below 16, a channel that
  is a byte or \<open>NaN\<close>, a colour string that \<open>hexToRgb\<close> reads as three numbers, and
  the condition of the \<open>while\<close> loop.
\<close>

definition hexchar :: "nat \<Rightarrow> 16 word" where
  "hexchar d = (ascii ''0123456789abcdef'') ! d"

fun byte_or_nan :: "int number \<Rightarrow> bool" where
  "byte_or_nan NaN = True"
| "byte_or_nan (Fin v) = (0 \<le> v \<and> v \<le> 255)"

definition numeric_colour :: "jstring \<Rightarrow> bool" where
  "numeric_colour f = (case hex_channels f of (Fin r, Fin g, Fin b) \<Rightarrow> True | other \<Rightarrow> False)"

definition loop_guard :: "real \<Rightarrow> fix_state \<Rightarrow> bool" where
  "loop_guard target s = (ratio s < target \<and> attempts s < 24)"

section \<open>Literals\<close>

lemma unat_cu: "unat (cu c) = of_char c"
proof -
  have "(of_char c :: nat) < 256"
    by (rule nat_of_char_less_256)
  then have "(of_char c :: nat) < 2 ^ 16"
    by (rule less_trans) simp
  then show ?thesis
    by (simp add: cu_def unat_of_nat take_bit_nat_eq_self_iff)
qed

lemma cu_inj [simp]: "(cu c = cu d) = (c = d)"
proof
  assume "cu c = cu d"
  then have "unat (cu c) = unat (cu d)" by simp
  then show "c = d" by (simp add: unat_cu)
qed simp

lemma ascii_inj [simp]: "(ascii s = ascii t) = (s = t)"
proof -
  have "inj cu" by (simp add: inj_on_def)
  then show ?thesis by (simp add: ascii_def inj_map_eq_map)
qed

lemma ascii_Nil [simp]: "ascii [] = []"
  by (simp add: ascii_def)

lemma ascii_eq_Nil [simp]: "(ascii s = []) = (s = [])" "([] = ascii s) = (s = [])"
  by (auto simp: ascii_def)

lemma length_ascii [simp]: "length (ascii s) = length s"
  by (simp add: ascii_def)

lemma ascii_append [simp]:
  "ascii s @ ascii t = ascii (s @ t)"
  "ascii s @ ascii t @ u = ascii (s @ t) @ u"
  by (simp_all add: ascii_def)

lemma ascii_Cons: "ascii (c # cs) = cu c # ascii cs"
  by (simp add: ascii_def)

lemmas literal = ascii_Cons cu_def

section \<open>Properties of the conversation store\<close>

subsection \<open>Storage, saving and loading\<close>

lemma getItem_removeItem: "getItem k (removeItem k s) = None"
  by (induction s) (auto simp: getItem_def removeItem_def)

lemma map_of_removeItem: "map_of (removeItem k s) = (map_of s)(k := None)"
  by (induction s) (auto simp: removeItem_def)

lemma getItem_put: "getItem k (put k v s) = Some v"
  by (induction s) (auto simp: getItem_def)

lemma put_put: "put k v (put k v' s) = put k v s"
  by (induction s) auto

lemma saveHistory_keeps [simp]:
  "messages (saveHistory env st) = messages st"
  "chatWindow (saveHistory env st) = chatWindow st"
  "requests (saveHistory env st) = requests st"
  "userInput (saveHistory env st) = userInput st"
  by (simp_all add: saveHistory_def split: sum.splits)

lemma push_fields [simp]:
  "messages (push m st) = messages st @ [m]"
  "storage (push m st) = storage st"
  "chatWindow (push m st) = chatWindow st"
  "requests (push m st) = requests st"
  "userInput (push m st) = userInput st"
  by (simp_all add: push_def)

lemma push_commute:
  "push m (st\<lparr>chatWindow := V\<rparr>) = (push m st)\<lparr>chatWindow := V\<rparr>"
  "push m (st\<lparr>requests := R\<rparr>) = (push m st)\<lparr>requests := R\<rparr>"
  by (simp_all add: push_def)

lemma saveHistory_commute:
  "saveHistory env (st\<lparr>chatWindow := V\<rparr>) = (saveHistory env st)\<lparr>chatWindow := V\<rparr>"
  "saveHistory env (st\<lparr>requests := R\<rparr>) = (saveHistory env st)\<lparr>requests := R\<rparr>"
  by (simp_all add: saveHistory_def split: sum.splits)

lemma is_persisted_system: "is_persisted system_message = Inr False"
  by (simp add: is_persisted_def system_message_def)

lemma is_persisted_role:
  "member m (ascii ''role'') = Inr (Str (ascii ''user'')) \<or> member m (ascii ''role'') = Inr (Str (ascii ''assistant''))
   \<Longrightarrow> is_persisted m = Inr True"
  by (auto simp: is_persisted_def)

lemma saveHistory_storage:
  assumes "filter_persisted (messages st) = Inr toSave"
      and "storage_accepts env (put STORAGE_KEY (JSON_stringify env (Arr toSave)) (storage st))"
  shows "storage (saveHistory env st) = put STORAGE_KEY (JSON_stringify env (Arr toSave)) (storage st)"
  using assms by (simp add: saveHistory_def setItem_def)

lemma saveHistory_storage_cases:
  "storage (saveHistory env st) = storage st
   \<or> (\<exists>v. storage (saveHistory env st) = put STORAGE_KEY v (storage st))"
  by (auto simp: saveHistory_def setItem_def split: sum.splits)

lemma loadHistory_array:
  assumes "getItem STORAGE_KEY s = Some raw" "raw \<noteq> []" "JSON_parse env raw = Some (Arr xs)"
  shows "loadHistory env s = (Some xs, s)"
  using assms by (simp add: loadHistory_def)

lemma render_restored_ok:
  "\<forall>m \<in> set ms. m \<noteq> Null \<and> m \<noteq> Undefined \<Longrightarrow> \<exists>w'. render_restored ms w = Inr w'"
proof (induction ms arbitrary: w)
  case Nil
  then show ?case by simp
next
  case (Cons m ms)
  then have "\<exists>r. member m (ascii ''role'') = Inr r" by (cases m) auto
  with Cons show ?case by auto
qed

subsection \<open>The example environment\<close>

lemma example_roles:
  "member example_user (ascii ''role'') = Inr (Str (ascii ''user''))"
  "member example_assistant (ascii ''role'') = Inr (Str (ascii ''assistant''))"
  by (simp_all add: example_user_def example_assistant_def user_message_def assistant_message_def)

lemma example_codec:
  "JSON_stringify (example_env f w k) (Arr [example_user, example_assistant]) = example_history_text"
  "JSON_parse (example_env f w k) example_history_text = Some (Arr [example_user, example_assistant])"
  "example_history_text \<noteq> []"
  "JSON_parse (example_env f w k) (ascii ''{}'') = Some (Obj [])"
  "JSON_parse (example_env f w k) (ascii ''not json'') = None"
  "storage_accepts (example_env f w k) s"
  by (simp_all add: example_env_def example_stringify_def example_parse_def
      example_history_text_def)

subsection \<open>Clearing, restoring, and corrupt records\<close>

text \<open>
  C7. Whatever the page holds, \<open>clearHistory\<close> leaves no record under the history key
  (every other key keeps its value), a transcript whose only entry is the system
  message, and a chat window showing the greeting alone; the greeting is in neither the
  transcript nor the storage.
\<close>

theorem clearHistory_resets:
  "getItem STORAGE_KEY (storage (clearHistory st)) = None
   \<and> map_of (storage (clearHistory st)) = (map_of (storage st))(STORAGE_KEY := None)
   \<and> messages (clearHistory st) = [system_message]
   \<and> chatWindow (clearHistory st) = [Bubble AssistantRow False (Str greeting) None]
   \<and> Str greeting \<notin> set (messages (clearHistory st))"
  by (simp add: clearHistory_def getItem_removeItem map_of_removeItem
      appendAssistantBubble_def system_message_def)

text \<open>
  C1. Start from the transcript holding the system message only; push a message
  \<open>m_u\<close> with role \<open>user\<close> and save, push a message \<open>m_a\<close> with role
  \<open>assistant\<close> and save. If the browser accepts the last write and \<open>JSON.parse\<close>
  reads back what \<open>JSON.stringify\<close> wrote for \<open>[m_u, m_a]\<close> (a non-empty text),
  then start-up in a new session over that storage does not throw and yields the
  transcript \<open>[system message, m_u, m_a]\<close>.
\<close>

theorem history_round_trip:
  assumes "messages st = [system_message]"
      and "member m_u (ascii ''role'') = Inr (Str (ascii ''user''))"
      and "member m_a (ascii ''role'') = Inr (Str (ascii ''assistant''))"
      and "JSON_stringify env (Arr [m_u, m_a]) \<noteq> []"
      and "JSON_parse env (JSON_stringify env (Arr [m_u, m_a])) = Some (Arr [m_u, m_a])"
      and "storage_accepts env (put STORAGE_KEY (JSON_stringify env (Arr [m_u, m_a])) (storage st))"
  shows "\<exists>st'. init env (new_session
                  (storage (saveHistory env (push m_a (saveHistory env (push m_u st)))))) = Inr st'
           \<and> messages st' = [system_message, m_u, m_a]"
proof -
  define st1 where "st1 = saveHistory env (push m_u st)"
  define saved where "saved = JSON_stringify env (Arr [m_u, m_a])"
  have flt: "filter_persisted (messages (push m_a st1)) = Inr [m_u, m_a]"
    using assms(1,2,3) by (simp add: st1_def is_persisted_system is_persisted_role)
  have same: "put STORAGE_KEY saved (storage (push m_a st1)) = put STORAGE_KEY saved (storage st)"
    using saveHistory_storage_cases [of env "push m_u st"] by (auto simp: st1_def put_put)
  have acc: "storage_accepts env (put STORAGE_KEY (JSON_stringify env (Arr [m_u, m_a])) (storage (push m_a st1)))"
    using assms(6) same by (simp add: saved_def)
  have sto: "storage (saveHistory env (push m_a st1)) = put STORAGE_KEY saved (storage st)"
    using saveHistory_storage [OF flt acc] same by (simp add: saved_def)
  have ld: "loadHistory env (put STORAGE_KEY saved (storage st)) =
              (Some [m_u, m_a], put STORAGE_KEY saved (storage st))"
    by (rule loadHistory_array [OF getItem_put]) (use assms(4,5) in \<open>simp_all add: saved_def\<close>)
  have nn: "\<forall>m \<in> set [m_u, m_a]. m \<noteq> Null \<and> m \<noteq> Undefined"
    using assms(2,3) by auto
  obtain w where w: "render_restored [m_u, m_a] [] = Inr w"
    using render_restored_ok [OF nn] by blast
  show ?thesis
    unfolding st1_def [symmetric] sto
    using w by (simp add: init_def new_session_def ld)
qed

text \<open>The question "Hi" and the answer "Use X", saved and restored.\<close>

theorem history_round_trip_witness:
  "messages (new_session []) = [system_message]
   \<and> member example_user (ascii ''role'') = Inr (Str (ascii ''user''))
   \<and> member example_assistant (ascii ''role'') = Inr (Str (ascii ''assistant''))
   \<and> JSON_stringify (example_env (answer_json use_x_body) (Some example_worker) None)
        (Arr [example_user, example_assistant]) \<noteq> []
   \<and> JSON_parse (example_env (answer_json use_x_body) (Some example_worker) None)
        (JSON_stringify (example_env (answer_json use_x_body) (Some example_worker) None)
           (Arr [example_user, example_assistant]))
       = Some (Arr [example_user, example_assistant])
   \<and> storage_accepts (example_env (answer_json use_x_body) (Some example_worker) None)
        (put STORAGE_KEY
           (JSON_stringify (example_env (answer_json use_x_body) (Some example_worker) None)
              (Arr [example_user, example_assistant]))
           (storage (new_session [])))
   \<and> (case init (example_env (answer_json use_x_body) (Some example_worker) None)
               (new_session
                  (storage
                     (saveHistory (example_env (answer_json use_x_body) (Some example_worker) None)
                        (push example_assistant
                           (saveHistory (example_env (answer_json use_x_body) (Some example_worker) None)
                              (push example_user (new_session []))))))) of
         Inl e \<Rightarrow> False
       | Inr st' \<Rightarrow> messages st' = [system_message, example_user, example_assistant])"
proof -
  let ?env = "example_env (answer_json use_x_body) (Some example_worker) None"
  have h1: "messages (new_session []) = [system_message]" by (simp add: new_session_def)
  have h4: "JSON_stringify ?env (Arr [example_user, example_assistant]) \<noteq> []"
    by (simp add: example_codec)
  have h5: "JSON_parse ?env (JSON_stringify ?env (Arr [example_user, example_assistant]))
              = Some (Arr [example_user, example_assistant])"
    by (simp add: example_codec)
  have h6: "storage_accepts ?env
              (put STORAGE_KEY (JSON_stringify ?env (Arr [example_user, example_assistant]))
                 (storage (new_session [])))"
    by (rule example_codec)
  from history_round_trip [OF h1 example_roles h4 h5 h6]
  show ?thesis using h1 example_roles h4 h5 h6 by auto
qed

text \<open>
  C2, as the code has it. When the value stored under the history key does not parse to
  an array (it is not valid JSON, or it is valid JSON of another shape), start-up does
  not throw and gives the fresh page: the transcript is the system message alone and the
  chat window shows the greeting, which is in neither the transcript nor the storage.
  The stored record is removed exactly when the value is non-empty and \<open>JSON.parse\<close>
  throws on it; a value that parses to a non-array, and the empty string, stay in
  storage.
\<close>

theorem corrupt_history_starts_fresh:
  assumes "getItem STORAGE_KEY s = Some raw"
      and "\<forall>xs. JSON_parse env raw \<noteq> Some (Arr xs)"
  shows "init env (new_session s) =
           Inr \<lparr>messages = [system_message],
                storage = (if raw \<noteq> [] \<and> JSON_parse env raw = None
                           then removeItem STORAGE_KEY s else s),
                chatWindow = [Bubble AssistantRow False (Str greeting) None],
                userInput = [], requests = []\<rparr>"
proof (cases "raw = []")
  case True
  then show ?thesis
    using assms(1)
    by (simp add: init_def loadHistory_def new_session_def appendAssistantBubble_def)
next
  case False
  show ?thesis
  proof (cases "JSON_parse env raw")
    case None
    then show ?thesis
      using assms(1) False
      by (simp add: init_def loadHistory_def new_session_def appendAssistantBubble_def)
  next
    case (Some v)
    then have "\<forall>xs. v \<noteq> Arr xs" using assms(2) by simp
    then have "loadHistory env s = (None, s)"
      using assms(1) False Some by (cases v) (simp_all add: loadHistory_def)
    then show ?thesis
      using False Some
      by (simp add: init_def new_session_def appendAssistantBubble_def)
  qed
qed

text \<open>A stored text that is not JSON is purged.\<close>

theorem corrupt_history_starts_fresh_witness:
  "getItem STORAGE_KEY [(STORAGE_KEY, (ascii ''not json''))] = Some (ascii ''not json'')
   \<and> init (example_env (answer_json use_x_body) (Some example_worker) None)
        (new_session [(STORAGE_KEY, (ascii ''not json''))])
       = Inr \<lparr>messages = [system_message], storage = [],
              chatWindow = [Bubble AssistantRow False (Str greeting) None],
              userInput = [], requests = []\<rparr>"
proof -
  let ?env = "example_env (answer_json use_x_body) (Some example_worker) None"
  have h1: "getItem STORAGE_KEY [(STORAGE_KEY, (ascii ''not json''))] = Some (ascii ''not json'')"
    by (simp add: getItem_def)
  have h2: "\<forall>xs. JSON_parse ?env (ascii ''not json'') \<noteq> Some (Arr xs)"
    by (simp add: example_codec)
  from corrupt_history_starts_fresh [OF h1 h2]
  show ?thesis using h1 h2 by (simp add: example_codec removeItem_def)
qed

text \<open>
  C2 as stated fails on its own example: with the JSON object \<open>{}\<close> stored under the
  history key, start-up gives the fresh page but the record is still in storage.
\<close>

theorem corrupt_object_not_purged_counterexample:
  "init (example_env (answer_json use_x_body) (Some example_worker) None)
        (new_session [(STORAGE_KEY, (ascii ''{}''))])
       = Inr \<lparr>messages = [system_message], storage = [(STORAGE_KEY, (ascii ''{}''))],
              chatWindow = [Bubble AssistantRow False (Str greeting) None],
              userInput = [], requests = []\<rparr>
   \<and> getItem STORAGE_KEY [(STORAGE_KEY, (ascii ''{}''))] = Some (ascii ''{}'')"
  by (simp add: init_def loadHistory_def getItem_def new_session_def example_codec
      appendAssistantBubble_def)

section \<open>Properties of the payload\<close>

lemma api_message_ok:
  "m \<noteq> Null \<Longrightarrow> m \<noteq> Undefined \<Longrightarrow>
   api_message m = Inr (Obj [((ascii ''role''), opt_member m (ascii ''role'')), ((ascii ''content''), opt_member m (ascii ''content''))])"
  by (cases m) (simp_all add: api_message_def opt_member_def)

lemma apiMessages_map:
  "\<forall>m \<in> set ms. m \<noteq> Null \<and> m \<noteq> Undefined \<Longrightarrow>
   apiMessages ms =
     Inr (map (\<lambda>m. Obj [((ascii ''role''), opt_member m (ascii ''role'')), ((ascii ''content''), opt_member m (ascii ''content''))]) ms)"
  by (induction ms) (simp_all add: api_message_ok)

text \<open>
  C5. For a transcript whose entries are neither \<open>null\<close> nor \<open>undefined\<close>, the
  payload is \<open>{messages: api}\<close> where \<open>api\<close> has one entry per transcript message,
  in the same order, and each entry is the object with exactly the two properties
  \<open>role\<close> and \<open>content\<close> of that message (so no timestamp and no other field).
\<close>

theorem payload_strips_in_order:
  assumes "\<forall>m \<in> set ms. m \<noteq> Null \<and> m \<noteq> Undefined"
  shows "\<exists>api. apiMessages ms = Inr api
           \<and> payload api = Obj [((ascii ''messages''), Arr api)]
           \<and> length api = length ms
           \<and> (\<forall>i < length ms.
                 api ! i = Obj [((ascii ''role''), opt_member (ms ! i) (ascii ''role'')),
                                ((ascii ''content''), opt_member (ms ! i) (ascii ''content''))])"
  using apiMessages_map [OF assms] by (simp add: payload_def)

text \<open>
  The transcript of the specification: the system message and the user message "Hi" with
  a timestamp.
\<close>

theorem payload_strips_in_order_witness:
  "apiMessages [system_message, user_message (ascii ''Hi'') 1700000000000]
       = Inr [Obj [((ascii ''role''), Str (ascii ''system'')), ((ascii ''content''), Str systemPrompt)],
              Obj [((ascii ''role''), Str (ascii ''user'')), ((ascii ''content''), Str (ascii ''Hi''))]]"
  using payload_strips_in_order [of "[system_message, user_message (ascii ''Hi'') 1700000000000]"]
  by (simp add: system_message_def user_message_def api_message_def)

lemma apiMessages_push:
  "\<forall>m \<in> set ms. m \<noteq> Null \<and> m \<noteq> Undefined \<Longrightarrow>
   apiMessages (ms @ [user_message t ts]) = Inr (stripped (ms @ [user_message t ts]))"
  unfolding stripped_def by (rule apiMessages_map) (auto simp: user_message_def)

section \<open>Properties of the submit handler\<close>

subsection \<open>The three ways through the handler\<close>

lemma post_requests: "requests (snd (post env l rq st)) = requests st @ [rq]"
  by (simp add: post_def Let_def split: fetch_result.splits option.splits)

lemma post_failure:
  "fetch env rq = Responded res \<Longrightarrow> \<not> res_ok res \<Longrightarrow>
   post env l rq st =
     (Inl (Error (l @ show_nat (status res) @ (ascii '' '') @ statusText res)),
      st\<lparr>requests := requests st @ [rq]\<rparr>)"
  by (simp add: post_def Let_def)

lemma post_success:
  "fetch env rq = Responded res \<Longrightarrow> res_ok res \<Longrightarrow> json_body res = Some data \<Longrightarrow>
   post env l rq st = (Inr data, st\<lparr>requests := requests st @ [rq]\<rparr>)"
  by (simp add: post_def Let_def)

lemma try_block_failure:
  assumes api: "apiMessages (messages st) = Inr api"
      and rq: "route_request env api = Some rq"
      and res: "fetch env rq = Responded res" "\<not> res_ok res"
  shows "try_block env idx ts st =
           (st\<lparr>requests := requests st @ [rq]\<rparr>,
            Some (Error (route_label env @ show_nat (status res) @ (ascii '' '') @ statusText res)))"
  using api rq res
  by (auto simp: try_block_def route_request_def route_label_def post_failure
           split: option.splits)

lemma try_block_success:
  assumes api: "apiMessages (messages st) = Inr api"
      and rq: "route_request env api = Some rq"
      and res: "fetch env rq = Responded res" "res_ok res" "json_body res = Some data"
  shows "try_block env idx ts st =
           (deliver_reply env idx ts data (st\<lparr>requests := requests st @ [rq]\<rparr>), None)"
  using api rq res
  by (auto simp: try_block_def route_request_def post_success split: option.splits)

lemma try_block_unconfigured:
  assumes api: "apiMessages (messages st) = Inr api"
      and rq: "route_request env api = None"
  shows "try_block env idx ts st =
           (st\<lparr>chatWindow :=
                 (chatWindow st)[idx := Bubble AssistantRow False (Str config_missing_text) None]\<rparr>,
            None)"
  using api rq
  by (auto simp: try_block_def route_request_def split: option.splits)

lemma submit_unfold:
  assumes inp: "trim (userInput st) \<noteq> []"
      and W: "W = updateLatestQuestionDisplay (Str (trim (userInput st)))
                    (appendUserBubble (Str (trim (userInput st))) (Num uts) (chatWindow st))"
      and st1: "st1 = (saveHistory env (push (user_message (trim (userInput st)) uts) st))"
      and st2: "st2 = st1\<lparr>chatWindow := W @ [Bubble AssistantRow True (Str (ascii ''Thinking...'')) None]\<rparr>"
  shows "submit env uts ats st =
      (case try_block env (length W) ats st2 of
         (st', None) \<Rightarrow> st'
       | (st', Some err) \<Rightarrow>
           st'\<lparr>chatWindow :=
                 (chatWindow st')[length W :=
                    Bubble AssistantRow False (Str ((ascii ''Error: '') @ error_text env err)) None]\<rparr>)
      \<lparr>userInput := []\<rparr>"
proof -
  show ?thesis
    using inp unfolding submit_def Let_def
    by (simp add: push_commute saveHistory_commute W st1 st2 appendAssistantBubble_def)
qed

lemma submit_messages_ok:
  assumes ok: "\<forall>m \<in> set (messages st). m \<noteq> Null \<and> m \<noteq> Undefined"
      and st1: "st1 = (saveHistory env (push (user_message t uts) st))"
      and st2: "st2 = st1\<lparr>chatWindow := V\<rparr>"
  shows "apiMessages (messages st2) = Inr (stripped (messages st @ [user_message t uts]))"
  using apiMessages_push [OF ok] by (simp add: st2 st1 push_def)

lemma submit_failure:
  assumes inp: "trim (userInput st) \<noteq> []"
      and ok: "\<forall>m \<in> set (messages st). m \<noteq> Null \<and> m \<noteq> Undefined"
      and rq: "route_request env (stripped (messages st @ [user_message (trim (userInput st)) uts])) = Some rq"
      and res: "fetch env rq = Responded res" "\<not> res_ok res"
  shows "submit env uts ats st =
     (saveHistory env (push (user_message (trim (userInput st)) uts) st))
       \<lparr>chatWindow :=
          updateLatestQuestionDisplay (Str (trim (userInput st)))
            (appendUserBubble (Str (trim (userInput st))) (Num uts) (chatWindow st))
          @ [Bubble AssistantRow False
               (Str ((ascii ''Error: '') @ route_label env @ show_nat (status res) @ (ascii '' '') @ statusText res))
               None],
        requests := requests st @ [rq],
        userInput := []\<rparr>"
proof -
  define W where "W = updateLatestQuestionDisplay (Str (trim (userInput st)))
                    (appendUserBubble (Str (trim (userInput st))) (Num uts) (chatWindow st))"
  define st1 where "st1 = (saveHistory env (push (user_message (trim (userInput st)) uts) st))"
  define st2 where "st2 = st1\<lparr>chatWindow := W @ [Bubble AssistantRow True (Str (ascii ''Thinking...'')) None]\<rparr>"
  note sub = submit_unfold [OF inp W_def st1_def st2_def]
  note api = submit_messages_ok [OF ok st1_def st2_def]
  have tb: "try_block env (length W) ats st2 =
      (st2\<lparr>requests := requests st2 @ [rq]\<rparr>,
       Some (Error (route_label env @ show_nat (status res) @ (ascii '' '') @ statusText res)))"
    by (rule try_block_failure [OF api rq res])
  have lbl: "route_label env \<noteq> []" by (simp add: route_label_def)
  show ?thesis
    unfolding sub tb
    by (simp add: lbl error_text_def st2_def) (simp add: st1_def W_def)
qed

lemma submit_success:
  assumes inp: "trim (userInput st) \<noteq> []"
      and ok: "\<forall>m \<in> set (messages st). m \<noteq> Null \<and> m \<noteq> Undefined"
      and rq: "route_request env (stripped (messages st @ [user_message (trim (userInput st)) uts])) = Some rq"
      and res: "fetch env rq = Responded res" "res_ok res" "json_body res = Some data"
  shows "submit env uts ats st =
     (saveHistory env
        (push (assistant_message (reply data) ats)
           (saveHistory env (push (user_message (trim (userInput st)) uts) st))))
       \<lparr>chatWindow :=
          updateLatestQuestionDisplay (Str (trim (userInput st)))
            (appendUserBubble (Str (trim (userInput st))) (Num uts) (chatWindow st))
          @ [Bubble AssistantRow False (reply data) (Some (Num ats))],
        requests := requests st @ [rq],
        userInput := []\<rparr>"
proof -
  define W where "W = updateLatestQuestionDisplay (Str (trim (userInput st)))
                    (appendUserBubble (Str (trim (userInput st))) (Num uts) (chatWindow st))"
  define st1 where "st1 = (saveHistory env (push (user_message (trim (userInput st)) uts) st))"
  define st2 where "st2 = st1\<lparr>chatWindow := W @ [Bubble AssistantRow True (Str (ascii ''Thinking...'')) None]\<rparr>"
  note sub = submit_unfold [OF inp W_def st1_def st2_def]
  note api = submit_messages_ok [OF ok st1_def st2_def]
  have tb: "try_block env (length W) ats st2 =
      (deliver_reply env (length W) ats data (st2\<lparr>requests := requests st2 @ [rq]\<rparr>), None)"
    by (rule try_block_success [OF api rq res])
  show ?thesis
    unfolding sub tb
    by (simp add: deliver_reply_def st2_def push_commute saveHistory_commute)
       (simp add: st1_def W_def)
qed

lemma submit_unconfigured:
  assumes inp: "trim (userInput st) \<noteq> []"
      and ok: "\<forall>m \<in> set (messages st). m \<noteq> Null \<and> m \<noteq> Undefined"
      and rq: "route_request env (stripped (messages st @ [user_message (trim (userInput st)) uts])) = None"
  shows "submit env uts ats st =
     (saveHistory env (push (user_message (trim (userInput st)) uts) st))
       \<lparr>chatWindow :=
          updateLatestQuestionDisplay (Str (trim (userInput st)))
            (appendUserBubble (Str (trim (userInput st))) (Num uts) (chatWindow st))
          @ [Bubble AssistantRow False (Str config_missing_text) None],
        userInput := []\<rparr>"
proof -
  define W where "W = updateLatestQuestionDisplay (Str (trim (userInput st)))
                    (appendUserBubble (Str (trim (userInput st))) (Num uts) (chatWindow st))"
  define st1 where "st1 = (saveHistory env (push (user_message (trim (userInput st)) uts) st))"
  define st2 where "st2 = st1\<lparr>chatWindow := W @ [Bubble AssistantRow True (Str (ascii ''Thinking...'')) None]\<rparr>"
  note sub = submit_unfold [OF inp W_def st1_def st2_def]
  note api = submit_messages_ok [OF ok st1_def st2_def]
  have tb: "try_block env (length W) ats st2 =
      (st2\<lparr>chatWindow :=
             (chatWindow st2)[length W := Bubble AssistantRow False (Str config_missing_text) None]\<rparr>,
       None)"
    by (rule try_block_unconfigured [OF api rq])
  show ?thesis
    unfolding sub tb
    by (simp add: st2_def) (simp add: st1_def W_def)
qed

lemma deliver_reply_requests [simp]:
  "requests (deliver_reply env idx ts data st) = requests st"
  by (simp add: deliver_reply_def)

lemma try_block_requests:
  assumes "apiMessages (messages st) = Inr api"
  shows "requests (fst (try_block env idx ts st)) =
           requests st @ (case route_request env api of Some rq \<Rightarrow> [rq] | None \<Rightarrow> [])"
  using assms post_requests [of env _ _ st]
  by (auto simp: try_block_def route_request_def split: option.splits prod.splits sum.splits
           dest!: arg_cong [where f = snd])

lemma submit_requests:
  assumes inp: "trim (userInput st) \<noteq> []"
      and ok: "\<forall>m \<in> set (messages st). m \<noteq> Null \<and> m \<noteq> Undefined"
  shows "requests (submit env uts ats st) =
           requests st @
             (case route_request env (stripped (messages st @ [user_message (trim (userInput st)) uts])) of
                Some rq \<Rightarrow> [rq] | None \<Rightarrow> [])"
proof -
  define W where "W = updateLatestQuestionDisplay (Str (trim (userInput st)))
                    (appendUserBubble (Str (trim (userInput st))) (Num uts) (chatWindow st))"
  define st1 where "st1 = (saveHistory env (push (user_message (trim (userInput st)) uts) st))"
  define st2 where "st2 = st1\<lparr>chatWindow := W @ [Bubble AssistantRow True (Str (ascii ''Thinking...'')) None]\<rparr>"
  note sub = submit_unfold [OF inp W_def st1_def st2_def]
  note api = submit_messages_ok [OF ok st1_def st2_def]
  have "requests (submit env uts ats st) = requests (fst (try_block env (length W) ats st2))"
    unfolding sub by (simp split: prod.splits option.splits)
  also have "\<dots> = requests st2 @
             (case route_request env (stripped (messages st @ [user_message (trim (userInput st)) uts])) of
                Some rq \<Rightarrow> [rq] | None \<Rightarrow> [])"
    by (rule try_block_requests [OF api])
  finally show ?thesis by (simp add: st2_def st1_def)
qed

lemma route_request_some:
  "relay_endpoint env \<noteq> None \<or> direct_key env \<noteq> None \<Longrightarrow> \<exists>rq. route_request env api = Some rq"
  by (auto simp: route_request_def split: option.splits)

lemma content_path_present:
  assumes "map_of ps (ascii ''choices'') = Some (Arr (Obj qs # rest))"
      and "map_of qs (ascii ''message'') = Some (Obj rs)"
      and "map_of rs (ascii ''content'') = Some c"
  shows "content_path (Obj ps) = c"
  using assms by (simp add: content_path_def opt_member_def opt_index0_def)

subsection \<open>The example page and network\<close>

lemma example_page_ok:
  "trim (userInput (example_page (ascii ''Hi''))) \<noteq> []"
  "\<forall>m \<in> set (messages (example_page (ascii ''Hi''))). m \<noteq> Null \<and> m \<noteq> Undefined"
  "trim (userInput (example_page (ascii ''Hi''))) = (ascii ''Hi'')"
  "messages (example_page (ascii ''Hi'')) = [system_message]"
  by (simp_all add: example_page_def trim_def is_space_def new_session_def system_message_def literal)

text \<open>
  Input made of white space only is ignored by the handler, also when the white space is
  a no-break space or an ideographic space.
\<close>

lemma blank_input_ignored:
  "trim [0x00A0, 0x3000] = []"
  "submit env uts ats (st\<lparr>userInput := [0x00A0, 0x3000]\<rparr>) = st\<lparr>userInput := [0x00A0, 0x3000]\<rparr>"
  by (simp_all add: submit_def trim_def is_space_def)

lemma example_env_relay:
  "relay_endpoint (example_env f (Some example_worker) k) \<noteq> None"
  by (simp add: relay_endpoint_def example_env_def example_worker_def placeholder_worker_url_def)

lemma example_env_fetch_json:
  "\<forall>rq. fetch (example_env (answer_json d) w k) rq
          = Responded \<lparr>status = 200, statusText = (ascii ''OK''), json_body = Some d\<rparr>"
  by (simp add: example_env_def answer_json_def)

lemma ok_200: "res_ok \<lparr>status = 200, statusText = (ascii ''OK''), json_body = Some d\<rparr>"
  by (simp add: res_ok_def)

lemma example_env_direct:
  "relay_endpoint (example_env f (Some placeholder_worker_url) k) = None"
  "direct_key (example_env f w (Some (ascii ''sk-test''))) = Some (ascii ''sk-test'')"
  "direct_key (example_env f w None) = None"
  "WORKER_URL (example_env f w k) = w"
  by (simp_all add: relay_endpoint_def direct_key_def example_env_def placeholder_api_key_def)

subsection \<open>Failed, successful and unconfigured submissions\<close>

text \<open>
  C8. A submission whose request is answered with a status outside 200..299, on the relay
  or on the direct path, ends in the handler's \<open>catch\<close>: the error thrown carries the
  status code and is shown in place of the loading bubble, the transcript has gained the
  user message only, and the storage is what saving that user message left. No assistant
  message is appended or persisted.
\<close>

theorem failed_send_appends_nothing:
  assumes "trim (userInput st) \<noteq> []"
      and "\<forall>m \<in> set (messages st). m \<noteq> Null \<and> m \<noteq> Undefined"
      and "relay_endpoint env \<noteq> None \<or> direct_key env \<noteq> None"
      and "\<forall>rq. fetch env rq = Responded res"
      and "\<not> res_ok res"
  shows "messages (submit env uts ats st) =
           messages st @ [user_message (trim (userInput st)) uts]
     \<and> storage (submit env uts ats st) =
           storage (saveHistory env (push (user_message (trim (userInput st)) uts) st))
     \<and> last (chatWindow (submit env uts ats st)) =
           Bubble AssistantRow False
             (Str ((ascii ''Error: '') @
                   (if relay_endpoint env \<noteq> None then (ascii ''Worker error: '') else (ascii ''OpenAI error: '')) @
                   show_nat (status res) @ (ascii '' '') @ statusText res))
             None"
proof -
  obtain rq where rq:
    "route_request env (stripped (messages st @ [user_message (trim (userInput st)) uts])) = Some rq"
    using route_request_some [OF assms(3)] by blast
  have res: "fetch env rq = Responded res" using assms(4) by simp
  show ?thesis
    unfolding submit_failure [OF assms(1,2) rq res assms(5)]
    by (simp add: route_label_def)
qed

text \<open>The relay answers 500 to the question "Hi".\<close>

theorem failed_send_appends_nothing_witness:
  "trim (userInput (example_page (ascii ''Hi''))) \<noteq> []
   \<and> \<not> res_ok \<lparr>status = 500, statusText = (ascii ''Internal Server Error''), json_body = None\<rparr>
   \<and> messages (submit (example_env (answer_status 500 (ascii ''Internal Server Error'')) (Some example_worker) None)
                  1700000000000 1700000000500 (example_page (ascii ''Hi'')))
       = [system_message, example_user]
   \<and> last (chatWindow (submit (example_env (answer_status 500 (ascii ''Internal Server Error'')) (Some example_worker) None)
                  1700000000000 1700000000500 (example_page (ascii ''Hi''))))
       = Bubble AssistantRow False (Str (ascii ''Error: Worker error: 500 Internal Server Error'')) None"
proof -
  let ?env = "example_env (answer_status 500 (ascii ''Internal Server Error'')) (Some example_worker) None"
  let ?res = "\<lparr>status = 500, statusText = (ascii ''Internal Server Error''), json_body = None\<rparr>"
  have h1: "trim (userInput (example_page (ascii ''Hi''))) \<noteq> []"
    by (simp add: example_page_def trim_def is_space_def literal)
  have h2: "\<forall>m \<in> set (messages (example_page (ascii ''Hi''))). m \<noteq> Null \<and> m \<noteq> Undefined"
    by (simp add: example_page_def new_session_def system_message_def)
  have h3: "relay_endpoint ?env \<noteq> None \<or> direct_key ?env \<noteq> None"
    by (simp add: relay_endpoint_def example_env_def example_worker_def placeholder_worker_url_def)
  have h4: "\<forall>rq. fetch ?env rq = Responded ?res"
    by (simp add: example_env_def answer_status_def)
  have h5: "\<not> res_ok ?res" by (simp add: res_ok_def)
  have t: "trim (userInput (example_page (ascii ''Hi''))) = (ascii ''Hi'')"
    by (simp add: example_page_def trim_def is_space_def literal)
  have sn: "show_nat 500 = (ascii ''500'')"
    by (simp add: show_nat.simps literal)
  have re: "relay_endpoint ?env \<noteq> None"
    by (simp add: relay_endpoint_def example_env_def example_worker_def placeholder_worker_url_def)
  show ?thesis
    using h1 h2 h3 h4 h5 failed_send_appends_nothing [OF h1 h2 h3 h4 h5, of 1700000000000 1700000000500]
    by (simp add: t sn re example_user_def) (simp add: example_page_def new_session_def)
qed

text \<open>
  C6, as the code has it. After a successful relay response with body \<open>data\<close>, the
  assistant message appended to the transcript (and shown in the bubble) carries the
  value at \<open>choices[0].message.content\<close> when that value is truthy, and the fixed
  fallback string when it is absent or falsy.
\<close>

theorem relay_reply_content_or_fallback:
  assumes "trim (userInput st) \<noteq> []"
      and "\<forall>m \<in> set (messages st). m \<noteq> Null \<and> m \<noteq> Undefined"
      and "relay_endpoint env \<noteq> None"
      and "\<forall>rq. fetch env rq = Responded res"
      and "res_ok res"
      and "json_body res = Some data"
  shows "messages (submit env uts ats st) =
           messages st @
             [user_message (trim (userInput st)) uts,
              assistant_message
                (if truthy (content_path data) then content_path data else Str fallback_reply) ats]
     \<and> last (chatWindow (submit env uts ats st)) =
           Bubble AssistantRow False
             (if truthy (content_path data) then content_path data else Str fallback_reply)
             (Some (Num ats))"
proof -
  obtain rq where rq:
    "route_request env (stripped (messages st @ [user_message (trim (userInput st)) uts])) = Some rq"
    using route_request_some [of env] assms(3) by blast
  have res: "fetch env rq = Responded res" using assms(4) by simp
  show ?thesis
    unfolding submit_success [OF assms(1,2) rq res assms(5,6)]
    by (simp add: reply_def)
qed

text \<open>
  The two bodies of the specification: \<open>{choices:[{message:{content:"Use X"}}]}\<close> gives
  "Use X", \<open>{}\<close> gives the fallback.
\<close>

theorem relay_reply_content_or_fallback_witness:
  "trim (userInput (example_page (ascii ''Hi''))) \<noteq> []
   \<and> relay_endpoint (example_env (answer_json use_x_body) (Some example_worker) None) \<noteq> None
   \<and> res_ok \<lparr>status = 200, statusText = (ascii ''OK''), json_body = Some use_x_body\<rparr>
   \<and> messages (submit (example_env (answer_json use_x_body) (Some example_worker) None)
                 1700000000000 1700000000500 (example_page (ascii ''Hi'')))
       = [system_message, example_user, example_assistant]
   \<and> messages (submit (example_env (answer_json (Obj [])) (Some example_worker) None)
                 1700000000000 1700000000500 (example_page (ascii ''Hi'')))
       = [system_message, example_user,
          assistant_message (Str (ascii ''Sorry, I could not get an answer.'')) 1700000000500]"
proof -
  have a: "content_path use_x_body = Str (ascii ''Use X'')"
    by (simp add: use_x_body_def content_path_def opt_member_def opt_index0_def)
  have b: "content_path (Obj []) = Undefined"
    by (simp add: content_path_def opt_member_def opt_index0_def)
  note w1 = relay_reply_content_or_fallback
    [where st = "example_page (ascii ''Hi'')"
       and env = "example_env (answer_json use_x_body) (Some example_worker) None"
       and res = "\<lparr>status = 200, statusText = (ascii ''OK''), json_body = Some use_x_body\<rparr>"
       and data = use_x_body and uts = 1700000000000 and ats = 1700000000500,
     OF example_page_ok(1,2) example_env_relay example_env_fetch_json ok_200]
  note w2 = relay_reply_content_or_fallback
    [where st = "example_page (ascii ''Hi'')"
       and env = "example_env (answer_json (Obj [])) (Some example_worker) None"
       and res = "\<lparr>status = 200, statusText = (ascii ''OK''), json_body = Some (Obj [])\<rparr>"
       and data = "Obj []" and uts = 1700000000000 and ats = 1700000000500,
     OF example_page_ok(1,2) example_env_relay example_env_fetch_json ok_200]
  show ?thesis
    using example_page_ok(1,2) example_env_relay example_env_fetch_json ok_200 w1 w2
    by (simp add: a b example_page_ok(3,4) example_user_def example_assistant_def fallback_reply_def)
qed

text \<open>
  C6 as stated fails where the field path is present and holds the empty string: the
  reply is the fallback, not the string at the path.
\<close>

theorem present_empty_content_counterexample:
  "content_path empty_content_body = Str []
   \<and> reply empty_content_body = Str (ascii ''Sorry, I could not get an answer.'')
   \<and> reply empty_content_body \<noteq> content_path empty_content_body"
  by (simp add: empty_content_body_def content_path_def opt_member_def opt_index0_def
      reply_def fallback_reply_def)

text \<open>
  C9. When a successful response, from the relay or from the direct endpoint, has
  \<open>choices[0].message.content\<close> present with a falsy value (the empty string, \<open>0\<close>,
  \<open>false\<close>, \<open>null\<close>), the reply is the fixed fallback string, and that is what the
  appended assistant message carries.
\<close>

theorem falsy_content_gets_fallback:
  assumes "trim (userInput st) \<noteq> []"
      and "\<forall>m \<in> set (messages st). m \<noteq> Null \<and> m \<noteq> Undefined"
      and "relay_endpoint env \<noteq> None \<or> direct_key env \<noteq> None"
      and "\<forall>rq. fetch env rq = Responded res"
      and "res_ok res"
      and "json_body res = Some (Obj ps)"
      and "map_of ps (ascii ''choices'') = Some (Arr (Obj qs # rest))"
      and "map_of qs (ascii ''message'') = Some (Obj rs)"
      and "map_of rs (ascii ''content'') = Some c"
      and "\<not> truthy c"
  shows "reply (Obj ps) = Str fallback_reply
     \<and> messages (submit env uts ats st) =
           messages st @
             [user_message (trim (userInput st)) uts,
              assistant_message (Str fallback_reply) ats]"
proof -
  obtain rq where rq:
    "route_request env (stripped (messages st @ [user_message (trim (userInput st)) uts])) = Some rq"
    using route_request_some [OF assms(3)] by blast
  have res: "fetch env rq = Responded res" using assms(4) by simp
  have r: "reply (Obj ps) = Str fallback_reply"
    using content_path_present [OF assms(7,8,9)] assms(10) by (simp add: reply_def)
  show ?thesis
    unfolding submit_success [OF assms(1,2) rq res assms(5,6)]
    by (simp add: r)
qed

text \<open>The direct endpoint answers with an empty content string.\<close>

theorem falsy_content_gets_fallback_witness:
  "trim (userInput (example_page (ascii ''Hi''))) \<noteq> []
   \<and> res_ok \<lparr>status = 200, statusText = (ascii ''OK''), json_body = Some empty_content_body\<rparr>
   \<and> \<not> truthy (Str [])
   \<and> reply empty_content_body = Str (ascii ''Sorry, I could not get an answer.'')
   \<and> messages (submit (example_env (answer_json empty_content_body) (Some placeholder_worker_url) (Some (ascii ''sk-test'')))
                 1700000000000 1700000000500 (example_page (ascii ''Hi'')))
       = [system_message, example_user,
          assistant_message (Str (ascii ''Sorry, I could not get an answer.'')) 1700000000500]"
proof -
  let ?env = "example_env (answer_json empty_content_body) (Some placeholder_worker_url) (Some (ascii ''sk-test''))"
  have h3: "relay_endpoint ?env \<noteq> None \<or> direct_key ?env \<noteq> None"
    by (simp add: example_env_direct)
  have h6: "json_body \<lparr>status = 200, statusText = (ascii ''OK''), json_body = Some empty_content_body\<rparr>
              = Some (Obj [((ascii ''choices''), Arr [Obj [((ascii ''message''), Obj [((ascii ''content''), Str [])])]])])"
    by (simp add: empty_content_body_def)
  have h7: "map_of [((ascii ''choices''), Arr [Obj [((ascii ''message''), Obj [((ascii ''content''), Str [])])]])] (ascii ''choices'')
              = Some (Arr (Obj [((ascii ''message''), Obj [((ascii ''content''), Str [])])] # []))"
    by simp
  have h8: "map_of [((ascii ''message''), Obj [((ascii ''content''), Str [])])] (ascii ''message'') = Some (Obj [((ascii ''content''), Str [])])"
    by simp
  have h9: "map_of [((ascii ''content''), Str [])] (ascii ''content'') = Some (Str [])" by simp
  have h10: "\<not> truthy (Str [])" by simp
  from falsy_content_gets_fallback [OF example_page_ok(1,2) h3 example_env_fetch_json ok_200 h6 h7 h8 h9 h10,
         of 1700000000000 1700000000500]
  show ?thesis
    using example_page_ok(1,2) h3 example_env_fetch_json [of empty_content_body] ok_200 h10
    by (simp add: example_page_ok(3,4) example_user_def fallback_reply_def empty_content_body_def)
qed

text \<open>
  C10. With \<open>WORKER_URL\<close> equal to the placeholder, the relay branch is not taken: the
  handler sends exactly one request, to the OpenAI endpoint with the bearer key, when a
  key is configured, and none otherwise, in which case the loading bubble shows the
  configuration message and no assistant message is appended. No request of the
  submission goes to the placeholder URL.
\<close>

theorem placeholder_url_is_unconfigured:
  assumes "WORKER_URL env = Some placeholder_worker_url"
      and "trim (userInput st) \<noteq> []"
      and "\<forall>m \<in> set (messages st). m \<noteq> Null \<and> m \<noteq> Undefined"
  shows "relay_endpoint env = None
     \<and> requests (submit env uts ats st) =
         requests st @
           (case direct_key env of
              Some k \<Rightarrow>
                [direct_request env k
                   (stripped (messages st @ [user_message (trim (userInput st)) uts]))]
            | None \<Rightarrow> [])
     \<and> (\<forall>rq \<in> set (drop (length (requests st)) (requests (submit env uts ats st))).
            url rq = openai_url \<and> url rq \<noteq> placeholder_worker_url)
     \<and> (direct_key env = None \<longrightarrow>
            last (chatWindow (submit env uts ats st)) =
              Bubble AssistantRow False (Str config_missing_text) None
          \<and> messages (submit env uts ats st) =
              messages st @ [user_message (trim (userInput st)) uts])"
proof -
  have no_relay: "relay_endpoint env = None"
    using assms(1) by (simp add: relay_endpoint_def)
  have rq: "route_request env api =
              (case direct_key env of Some k \<Rightarrow> Some (direct_request env k api) | None \<Rightarrow> None)" for api
    by (simp add: route_request_def no_relay)
  have reqs: "requests (submit env uts ats st) =
         requests st @
           (case direct_key env of
              Some k \<Rightarrow>
                [direct_request env k
                   (stripped (messages st @ [user_message (trim (userInput st)) uts]))]
            | None \<Rightarrow> [])"
    unfolding submit_requests [OF assms(2,3)] rq by (simp split: option.splits)
  have urls: "openai_url \<noteq> placeholder_worker_url"
    by (simp add: openai_url_def placeholder_worker_url_def)
  have new: "\<forall>rq \<in> set (drop (length (requests st)) (requests (submit env uts ats st))).
            url rq = openai_url \<and> url rq \<noteq> placeholder_worker_url"
    unfolding reqs using urls by (auto simp: direct_request_def split: option.splits)
  have unconf: "direct_key env = None \<longrightarrow>
            last (chatWindow (submit env uts ats st)) =
              Bubble AssistantRow False (Str config_missing_text) None
          \<and> messages (submit env uts ats st) =
              messages st @ [user_message (trim (userInput st)) uts]"
  proof
    assume "direct_key env = None"
    then have "route_request env (stripped (messages st @ [user_message (trim (userInput st)) uts])) = None"
      by (simp add: rq)
    from submit_unconfigured [OF assms(2,3) this]
    show "last (chatWindow (submit env uts ats st)) =
              Bubble AssistantRow False (Str config_missing_text) None
          \<and> messages (submit env uts ats st) =
              messages st @ [user_message (trim (userInput st)) uts]"
      by simp
  qed
  show ?thesis using no_relay reqs new unconf by blast
qed

text \<open>The placeholder URL without a key, and with the key \<open>sk-test\<close>.\<close>

theorem placeholder_url_is_unconfigured_witness:
  "WORKER_URL (example_env (answer_json use_x_body) (Some placeholder_worker_url) None)
     = Some placeholder_worker_url
   \<and> trim (userInput (example_page (ascii ''Hi''))) \<noteq> []
   \<and> direct_key (example_env (answer_json use_x_body) (Some placeholder_worker_url) None) = None
   \<and> requests (submit (example_env (answer_json use_x_body) (Some placeholder_worker_url) None)
                 1700000000000 1700000000500 (example_page (ascii ''Hi''))) = []
   \<and> last (chatWindow (submit (example_env (answer_json use_x_body) (Some placeholder_worker_url) None)
                 1700000000000 1700000000500 (example_page (ascii ''Hi''))))
       = Bubble AssistantRow False (Str config_missing_text) None
   \<and> messages (submit (example_env (answer_json use_x_body) (Some placeholder_worker_url) None)
                 1700000000000 1700000000500 (example_page (ascii ''Hi'')))
       = [system_message, example_user]
   \<and> map url (requests (submit (example_env (answer_json use_x_body) (Some placeholder_worker_url) (Some (ascii ''sk-test'')))
                 1700000000000 1700000000500 (example_page (ascii ''Hi'')))) = [openai_url]"
proof -
  let ?env = "example_env (answer_json use_x_body) (Some placeholder_worker_url) None"
  let ?env2 = "example_env (answer_json use_x_body) (Some placeholder_worker_url) (Some (ascii ''sk-test''))"
  have h1: "WORKER_URL ?env = Some placeholder_worker_url" by (simp add: example_env_direct)
  have h1': "WORKER_URL ?env2 = Some placeholder_worker_url" by (simp add: example_env_direct)
  have r0: "requests (example_page (ascii ''Hi'')) = []" by (simp add: example_page_def new_session_def)
  note a = placeholder_url_is_unconfigured [OF h1 example_page_ok(1,2), of 1700000000000 1700000000500]
  note b = placeholder_url_is_unconfigured [OF h1' example_page_ok(1,2), of 1700000000000 1700000000500]
  show ?thesis
    using h1 example_page_ok(1,2) a b
    by (simp add: example_env_direct example_page_ok(3,4) r0 example_user_def direct_request_def)
qed

section \<open>Properties of the colour arithmetic\<close>

subsection \<open>A byte in hexadecimal and back\<close>

lemma lt16_cases:
  "d < 16 \<Longrightarrow> d \<in> {0, 1, 2, 3, 4, 5, 6, 7, 8, 9, 10, 11, 12, 13, 14, 15::nat}"
  by (simp; arith)

lemma hexchar_facts:
  assumes "d < 16"
  shows "hex_digit (hexchar d) = Some (int d)"
    and "is_hex (hexchar d)"
    and "\<not> is_space (hexchar d)"
    and "hexchar d \<noteq> (cu CHR ''#'')"
    and "hexchar d \<noteq> (cu CHR ''-'')"
    and "hexchar d \<noteq> (cu CHR ''+'')"
    and "hexchar d \<noteq> (cu CHR ''x'')"
    and "hexchar d \<noteq> (cu CHR ''X'')"
  using lt16_cases [OF assms]
  by (elim insertE emptyE;
      simp add: hexchar_def hex_digit_def hex_table_def is_hex_def is_space_def literal)+

lemma toString16_byte:
  assumes "n < 256"
  shows "padStart2 (toString16 n) = [hexchar (n div 16), hexchar (n mod 16)]"
proof (cases "n < 16")
  case True
  then show ?thesis
    by (simp add: toString16.simps [of n] padStart2_def hexchar_def literal)
next
  case False
  with assms have "n div 16 < 16" by simp
  with False show ?thesis
    by (simp add: toString16.simps [of n] toString16.simps [of "n div 16"] padStart2_def hexchar_def)
qed

lemma channel_text_byte:
  assumes "0 \<le> v" "v \<le> 255"
  shows "channel_text (Fin v) = [hexchar (nat v div 16), hexchar (nat v mod 16)]"
  using assms toString16_byte [of "nat v"] by simp

lemma and_255: "(x::int) AND 255 = x mod 256"
proof -
  have m: "(255::int) = mask 8" by (simp add: mask_eq_exp_minus_1)
  have "x AND mask 8 = x mod 2 ^ 8"
    unfolding take_bit_eq_mask [symmetric] by (rule take_bit_eq_mod)
  then show ?thesis unfolding m [symmetric] by simp
qed

lemma and_255_range: "0 \<le> (x::int) AND 255" "(x::int) AND 255 \<le> 255"
  by (simp_all add: and_255)

lemma parseInt16_six:
  assumes "d1 < 16" "d2 < 16" "d3 < 16" "d4 < 16" "d5 < 16" "d6 < 16"
  shows "parseInt16 [hexchar d1, hexchar d2, hexchar d3, hexchar d4, hexchar d5, hexchar d6]
           = Some (int (((((d1 * 16 + d2) * 16 + d3) * 16 + d4) * 16 + d5) * 16 + d6))"
proof -
  let ?h = "[hexchar d1, hexchar d2, hexchar d3, hexchar d4, hexchar d5, hexchar d6]"
  note f = assms [THEN hexchar_facts(1)] assms [THEN hexchar_facts(2)]
  have s1: "dropWhile is_space ?h = ?h"
    using hexchar_facts(3) [OF assms(1)] by simp
  have sg: "take 1 ?h \<noteq> (ascii ''-'')" "take 1 ?h \<noteq> (ascii ''+'')"
    using hexchar_facts(5,6) [OF assms(1)] by (simp_all add: literal)
  have px: "take 2 ?h \<noteq> (ascii ''0x'')" "take 2 ?h \<noteq> (ascii ''0X'')"
    using hexchar_facts(7,8) [OF assms(2)] by (simp_all add: literal)
  have z: "takeWhile is_hex ?h = ?h"
    by (simp add: f)
  have v: "hex_value ?h = int (((((d1 * 16 + d2) * 16 + d3) * 16 + d4) * 16 + d5) * 16 + d6)"
    by (simp add: hex_value_def f)
  show ?thesis
    unfolding parseInt16_def Let_def s1
    by (simp only: sg px z v if_False simp_thms list.simps)
qed

lemma to_double_small: "\<bar>n\<bar> < 2 ^ 53 \<Longrightarrow> to_double n = Some n"
  by (simp add: to_double_def)

lemma toInt32_small: "0 \<le> n \<Longrightarrow> n < 2 ^ 24 \<Longrightarrow> toInt32 (Some n) = n"
proof -
  assume a: "0 \<le> n" "n < 2 ^ 24"
  then have "\<bar>n\<bar> < 2 ^ 53" by simp
  then have "to_double n = Some n" by (rule to_double_small)
  moreover have "signed_take_bit 31 n = n"
    using a by (simp add: signed_take_bit_int_eq_self)
  ultimately show ?thesis by (simp add: toInt32_def)
qed

lemma bytes_of:
  fixes r g b :: int
  assumes "0 \<le> r" "r \<le> 255" "0 \<le> g" "g \<le> 255" "0 \<le> b" "b \<le> 255"
  shows "drop_bit 16 (r * 65536 + g * 256 + b) AND 255 = r"
    and "drop_bit 8 (r * 65536 + g * 256 + b) AND 255 = g"
    and "(r * 65536 + g * 256 + b) AND 255 = b"
proof -
  have sh: "r * 65536 + g * 256 + b = (r * 256 + g) * 256 + b"
    by simp
  have sh16: "r * 65536 + g * 256 + b = r * 65536 + (g * 256 + b)"
    by simp
  have lo: "0 \<le> g * 256 + b" "g * 256 + b < 65536"
    using assms by simp_all
  have "(r * 65536 + (g * 256 + b)) div 65536 = r + (g * 256 + b) div 65536"
    by (rule div_mult_self3) simp
  also have "(g * 256 + b) div 65536 = 0"
    using lo by (rule div_pos_pos_trivial)
  finally have d16: "(r * 65536 + g * 256 + b) div 65536 = r"
    unfolding sh16 by simp
  have "((r * 256 + g) * 256 + b) div 256 = (r * 256 + g) + b div 256"
    by (rule div_mult_self3) simp
  also have "b div 256 = 0"
    using assms by (simp add: div_pos_pos_trivial)
  finally have d8: "(r * 65536 + g * 256 + b) div 256 = r * 256 + g"
    unfolding sh by simp
  have "((r * 256 + g) * 256 + b) mod 256 = b mod 256"
    by (rule mod_mult_self3)
  also have "b mod 256 = b"
    using assms by (simp add: mod_pos_pos_trivial)
  finally have m0: "(r * 65536 + g * 256 + b) mod 256 = b"
    unfolding sh .
  have "(r * 256 + g) mod 256 = g mod 256"
    by (rule mod_mult_self3)
  also have "g mod 256 = g"
    using assms by (simp add: mod_pos_pos_trivial)
  finally have m8: "(r * 256 + g) mod 256 = g" .
  have gm: "g mod 256 = g"
    using assms by (simp add: mod_pos_pos_trivial)
  have m16: "r mod 256 = r"
    using assms by (simp add: mod_pos_pos_trivial)
  show "drop_bit 16 (r * 65536 + g * 256 + b) AND 255 = r"
    by (simp add: and_255 drop_bit_eq_div d16 m16)
  show "drop_bit 8 (r * 65536 + g * 256 + b) AND 255 = g"
    by (simp add: and_255 drop_bit_eq_div d8 m8 gm)
  show "(r * 65536 + g * 256 + b) AND 255 = b"
    by (simp add: and_255 m0)
qed

lemma hexToRgb_rgbToHex:
  fixes r g b :: int
  assumes "0 \<le> r" "r \<le> 255" "0 \<le> g" "g \<le> 255" "0 \<le> b" "b \<le> 255"
  shows "hexToRgb (Str (rgbToHex (Fin r, Fin g, Fin b))) = Inr (Fin r, Fin g, Fin b)"
proof -
  define d1 d2 d3 d4 d5 d6 where
    "d1 = nat r div 16" and "d2 = nat r mod 16" and "d3 = nat g div 16" and
    "d4 = nat g mod 16" and "d5 = nat b div 16" and "d6 = nat b mod 16"
  have lt: "d1 < 16" "d2 < 16" "d3 < 16" "d4 < 16" "d5 < 16" "d6 < 16"
    using assms by (simp_all add: d1_def d2_def d3_def d4_def d5_def d6_def)
  let ?h = "[hexchar d1, hexchar d2, hexchar d3, hexchar d4, hexchar d5, hexchar d6]"
  have hx: "rgbToHex (Fin r, Fin g, Fin b) = (cu CHR ''#'') # ?h"
    using assms
    by (simp add: rgbToHex_def channel_text_byte [OF assms(1,2)] channel_text_byte [OF assms(3,4)]
        channel_text_byte [OF assms(5,6)] d1_def d2_def d3_def d4_def d5_def d6_def
        del: channel_text.simps)
  have tr: "trim ?h = ?h"
    using lt by (simp add: trim_def hexchar_facts)
  have e: "d1 * 16 + d2 = nat r" "d3 * 16 + d4 = nat g" "d5 * 16 + d6 = nat b"
    by (simp_all add: d1_def d2_def d3_def d4_def d5_def d6_def)
  have "((((d1 * 16 + d2) * 16 + d3) * 16 + d4) * 16 + d5) * 16 + d6
          = (d1 * 16 + d2) * 65536 + (d3 * 16 + d4) * 256 + (d5 * 16 + d6)"
    by simp
  then have val: "int (((((d1 * 16 + d2) * 16 + d3) * 16 + d4) * 16 + d5) * 16 + d6)
               = r * 65536 + g * 256 + b"
    unfolding e using assms by simp
  have rng: "0 \<le> r * 65536 + g * 256 + b" "r * 65536 + g * 256 + b < 2 ^ 24"
    using assms by simp_all
  have big: "toInt32 (parseInt16 ?h) = r * 65536 + g * 256 + b"
    unfolding parseInt16_six [OF lt] val by (rule toInt32_small [OF rng])
  show ?thesis
    unfolding hx
    by (simp add: hexToRgb_def hex_channels_def tr big bytes_of [OF assms])
qed

subsection \<open>Channels are bytes or NaN\<close>

lemma hex_digit_range: "hex_digit c = Some d \<Longrightarrow> 0 \<le> d \<and> d \<le> 15"
  by (simp add: hex_digit_def hex_table_def literal split: if_splits)

lemma hex_digit_not_special:
  "hex_digit c = Some d \<Longrightarrow> \<not> is_space c \<and> c \<noteq> (cu CHR ''-'') \<and> c \<noteq> (cu CHR ''+'') \<and> c \<noteq> (cu CHR ''x'') \<and> c \<noteq> (cu CHR ''X'')"
  by (simp add: hex_digit_def hex_table_def is_space_def literal split: if_splits)

lemma not_hex_sign: "\<not> is_hex (cu CHR ''-'')" "\<not> is_hex (cu CHR ''+'')"
  by (simp_all add: is_hex_def hex_digit_def hex_table_def literal)

lemma doubled_cases:
  "doubled c = (case hex_digit c of None \<Rightarrow> NaN | Some d \<Rightarrow> Fin (17 * d))"
proof (cases "hex_digit c")
  case None
  then have nh: "\<not> is_hex c" by (simp add: is_hex_def)
  have "parseInt16 [c, c] = None"
  proof (cases "is_space c")
    case True
    then show ?thesis by (simp add: parseInt16_def Let_def)
  next
    case False
    then show ?thesis
      using nh not_hex_sign by (auto simp: parseInt16_def Let_def literal)
  qed
  with None show ?thesis by (simp add: doubled_def)
next
  case (Some d)
  note sp = hex_digit_not_special [OF Some]
  have h: "is_hex c" using Some by (simp add: is_hex_def)
  have "parseInt16 [c, c] = Some (17 * d)"
    using sp h Some by (simp add: parseInt16_def Let_def hex_value_def literal)
  with Some show ?thesis by (simp add: doubled_def)
qed

lemma doubled_range: "byte_or_nan (doubled c)"
  using hex_digit_range [of c]
  by (cases "hex_digit c") (auto simp: doubled_cases)

lemma hex_channels_range:
  assumes "hex_channels s = (c0, c1, c2)"
  shows "byte_or_nan c0 \<and> byte_or_nan c1 \<and> byte_or_nan c2"
  using assms
  by (auto simp: hex_channels_def Let_def doubled_range and_255_range split: if_splits)

subsection \<open>The luminance curve on the channel grid\<close>

lemma grid_threshold: "(real_of_int i / 255 \<le> 0.03928) = (i \<le> 10)"
proof -
  have "(real_of_int i / 255 \<le> 0.03928) = (real_of_int i \<le> 0.03928 * 255)"
    by (simp add: field_simps)
  also have "\<dots> = (i \<le> 10)"
  proof
    assume "real_of_int i \<le> 0.03928 * 255"
    then have "real_of_int i < 11" by simp
    then show "i \<le> 10" by linarith
  next
    assume "i \<le> 10"
    then have "real_of_int i \<le> 10" by simp
    then show "real_of_int i \<le> 0.03928 * 255" by simp
  qed
  finally show ?thesis .
qed

lemma root5_power5:
  fixes a :: real
  assumes "0 \<le> a"
  shows "(a ^ 5) powr (1 / 5) = a"
proof -
  have "(a ^ 5) powr (1 / 5) = (a powr 5) powr (1 / 5)"
    by (simp only: powr_numeral [OF assms])
  also have "\<dots> = a powr (5 * (1 / 5))" by (rule powr_powr)
  also have "\<dots> = a" using assms by simp
  finally show ?thesis .
qed

lemma root5_power12:
  fixes x :: real
  assumes "0 \<le> x"
  shows "(x ^ 12) powr (1 / 5) = x powr 2.4"
proof -
  have "(x ^ 12) powr (1 / 5) = (x powr 12) powr (1 / 5)"
    by (simp only: powr_numeral [OF assms])
  also have "\<dots> = x powr (12 * (1 / 5))" by (rule powr_powr)
  also have "12 * (1 / 5) = (2.4::real)" by simp
  finally show ?thesis .
qed

lemma powr_12_5_ge:
  fixes a x :: real
  assumes "0 \<le> a" "0 \<le> x" "a ^ 5 \<le> x ^ 12"
  shows "a \<le> x powr 2.4"
proof -
  have "(a ^ 5) powr (1 / 5) \<le> (x ^ 12) powr (1 / 5)"
    using assms by (intro powr_mono2) simp_all
  then show ?thesis
    unfolding root5_power5 [OF assms(1)] root5_power12 [OF assms(2)] .
qed

lemma linearize_grid_step: "linearize (10 / 255) \<le> linearize (11 / 255)"
proof -
  have l: "linearize (10 / 255) = (10 / 255) / 12.92"
    by (simp add: linearize_def)
  have r: "linearize (11 / 255) = ((11 / 255 + 0.055) / 1.055) powr 2.4"
    by (simp add: linearize_def)
  have "(10 / 255) / 12.92 \<le> ((11 / 255 + 0.055) / 1.055) powr (2.4::real)"
    by (rule powr_12_5_ge) (simp_all add: power_divide field_simps)
  then show ?thesis unfolding l r .
qed

lemma linearize_mono_grid:
  assumes "0 \<le> i" "i \<le> j"
  shows "linearize (real_of_int i / 255) \<le> linearize (real_of_int j / 255)"
proof -
  consider "j \<le> 10" | "11 \<le> i" | "i \<le> 10" "11 \<le> j" using assms by linarith
  then show ?thesis
  proof cases
    case 1
    then have "i \<le> 10" using assms by simp
    with 1 assms show ?thesis
      by (simp add: linearize_def grid_threshold)
  next
    case 2
    then have j: "11 \<le> j" using assms by simp
    have "((real_of_int i / 255 + 0.055) / 1.055) powr 2.4
            \<le> ((real_of_int j / 255 + 0.055) / 1.055) powr 2.4"
      using assms by (intro powr_mono2) simp_all
    then show ?thesis
      using 2 j by (simp add: linearize_def grid_threshold)
  next
    case 3
    have "linearize (real_of_int i / 255) \<le> linearize (10 / 255)"
      using 3 assms by (simp add: linearize_def grid_threshold)
    also note linearize_grid_step
    also have "linearize (11 / 255) \<le> linearize (real_of_int j / 255)"
    proof -
      have "((11 / 255 + 0.055) / 1.055) powr 2.4
              \<le> ((real_of_int j / 255 + 0.055) / 1.055) powr (2.4::real)"
        using 3 by (intro powr_mono2) simp_all
      then show ?thesis
        using 3 by (simp add: linearize_def grid_threshold)
    qed
    finally show ?thesis .
  qed
qed

lemma relativeLuminance_mono:
  assumes "0 \<le> r'" "r' \<le> r" "0 \<le> g'" "g' \<le> g" "0 \<le> b'" "b' \<le> b"
  shows "num_le (relativeLuminance (Fin r', Fin g', Fin b')) (relativeLuminance (Fin r, Fin g, Fin b))"
  using linearize_mono_grid [OF assms(1,2)] linearize_mono_grid [OF assms(3,4)]
    linearize_mono_grid [OF assms(5,6)]
  by simp

subsection \<open>Colours of the examples\<close>

lemma luminance_channels: "luminance f = relativeLuminance (hex_channels f)"
  by (simp add: luminance_def hexToRgb_def)

lemmas hex_eval =
  hex_channels_def trim_def is_space_def parseInt16_def is_hex_def hex_digit_def
  hex_table_def toInt32_def hex_value_def to_double_def doubled_def Let_def literal

lemma black_channels: "hex_channels (ascii ''#000000'') = (Fin 0, Fin 0, Fin 0)"
  by (simp add: hex_channels_def trim_def is_space_def parseInt16_def is_hex_def hex_digit_def
      hex_table_def toInt32_def hex_value_def to_double_def Let_def literal)

lemma white_channels: "hex_channels (ascii ''#ffffff'') = (Fin 255, Fin 255, Fin 255)"
  by (simp add: hex_eval)

lemma trim_examples:
  "trim (ascii ''#ffffff'') = ascii ''#ffffff''"
  "trim (ascii ''#f0f0f0'') = ascii ''#f0f0f0''"
  by (simp_all add: trim_def is_space_def literal)

text \<open>
  Beyond ASCII: a no-break space around the digits is trimmed, and a text of three code
  units whose first is not a hexadecimal digit has a \<open>NaN\<close> channel.
\<close>

lemma nbsp_white_channels:
  "hex_channels ([0x00A0] @ ascii ''ffffff'') = (Fin 255, Fin 255, Fin 255)"
  by (simp add: hex_eval)

lemma accent_channels:
  "hex_channels ([0x00E9] @ ascii ''ab'') = (NaN, Fin 170, Fin 187)"
  by (simp add: hex_eval)

lemma linearize_0: "linearize 0 = 0" by (simp add: linearize_def)

lemma linearize_1: "linearize 1 = 1" by (simp add: linearize_def)

lemma unparsed_is_black:
  assumes "length (trim (remove_first (cu CHR ''#'') s)) \<noteq> 3"
      and "parseInt16 (trim (remove_first (cu CHR ''#'') s)) = None"
  shows "hex_channels s = (Fin 0, Fin 0, Fin 0)"
  using assms by (simp add: hex_channels_def toInt32_def Let_def)

lemma rgb_text: "trim (remove_first (cu CHR ''#'') (ascii ''rgb(34, 34, 34)'')) = (ascii ''rgb(34, 34, 34)'')"
  by (simp add: trim_def is_space_def literal)

lemma rgb_text_unparsed: "parseInt16 (ascii ''rgb(34, 34, 34)'') = None"
  by (simp add: parseInt16_def is_space_def is_hex_def hex_digit_def hex_table_def Let_def literal)

lemma black_on_white: "contrastRatio (Str (ascii ''#000000'')) (Str (ascii ''#ffffff'')) = Some (Fin 21)"
  by (simp add: contrastRatio_def hexToRgb_def black_channels white_channels linearize_0 linearize_1)

subsection \<open>What contrastRatio returns\<close>

text \<open>
  C3, as the code has it. \<open>contrastRatio\<close> returns \<open>null\<close> only when an argument is
  not a string, which is when \<open>hexToRgb\<close> throws. On two strings it always returns a
  number or \<open>NaN\<close>, the ratio of the two luminances; a text that is not a hexadecimal
  colour is not rejected. In particular, when the text (without its first \<open>#\<close>,
  trimmed) does not have length 3 and \<open>parseInt\<close> finds no digit in it, the
  colour is read as black.
\<close>

theorem contrastRatio_null_only_without_string:
  "contrastRatio (Str s) (Str t) = Some (ratio_of (luminance s) (luminance t))
   \<and> ((\<forall>x. a \<noteq> Str x) \<longrightarrow> contrastRatio a b = None \<and> contrastRatio (Str s) a = None)
   \<and> (length (trim (remove_first (cu CHR ''#'') s)) \<noteq> 3
        \<and> parseInt16 (trim (remove_first (cu CHR ''#'') s)) = None
        \<longrightarrow> contrastRatio (Str s) (Str t) = contrastRatio (Str (ascii ''#000000'')) (Str t))"
proof -
  have str: "contrastRatio (Str x) (Str y) = Some (ratio_of (luminance x) (luminance y))" for x y
    by (simp add: contrastRatio_def hexToRgb_def luminance_channels)
  have non: "(\<forall>x. a \<noteq> Str x) \<longrightarrow> contrastRatio a b = None \<and> contrastRatio (Str s) a = None"
    by (cases a) (simp_all add: contrastRatio_def hexToRgb_def)
  have blk: "length (trim (remove_first (cu CHR ''#'') s)) \<noteq> 3
        \<and> parseInt16 (trim (remove_first (cu CHR ''#'') s)) = None
        \<longrightarrow> contrastRatio (Str s) (Str t) = contrastRatio (Str (ascii ''#000000'')) (Str t)"
    by (simp add: str luminance_channels unparsed_is_black black_channels)
  show ?thesis using str non blk by blast
qed

text \<open>
  The text \<open>rgb(34, 34, 34)\<close> against white gives 21, the ratio of black against white;
  \<open>undefined\<close> gives \<open>null\<close>.
\<close>

theorem contrastRatio_null_only_without_string_witness:
  "length (trim (remove_first (cu CHR ''#'') (ascii ''rgb(34, 34, 34)''))) \<noteq> 3
   \<and> parseInt16 (trim (remove_first (cu CHR ''#'') (ascii ''rgb(34, 34, 34)''))) = None
   \<and> contrastRatio (Str (ascii ''rgb(34, 34, 34)'')) (Str (ascii ''#ffffff'')) = Some (Fin 21)
   \<and> contrastRatio Undefined (Str (ascii ''#ffffff'')) = None"
proof -
  have h1: "length (trim (remove_first (cu CHR ''#'') (ascii ''rgb(34, 34, 34)''))) \<noteq> 3"
    unfolding rgb_text by simp
  have h2: "parseInt16 (trim (remove_first (cu CHR ''#'') (ascii ''rgb(34, 34, 34)''))) = None"
    unfolding rgb_text by (rule rgb_text_unparsed)
  have h3: "\<forall>x. Undefined \<noteq> Str x" by simp
  note inst = contrastRatio_null_only_without_string
         [of "(ascii ''rgb(34, 34, 34)'')" "(ascii ''#ffffff'')" Undefined "Str (ascii ''#ffffff'')"]
  from inst h1 h2
  have "contrastRatio (Str (ascii ''rgb(34, 34, 34)'')) (Str (ascii ''#ffffff''))
          = contrastRatio (Str (ascii ''#000000'')) (Str (ascii ''#ffffff''))"
    by blast
  moreover from inst h3 have "contrastRatio Undefined (Str (ascii ''#ffffff'')) = None"
    by blast
  ultimately show ?thesis using h1 h2 by (simp only: black_on_white simp_thms)
qed

text \<open>
  C3 as stated fails: \<open>zzzzzz\<close> is not a hexadecimal colour, yet \<open>contrastRatio\<close>
  returns the number 21 for it against white, not \<open>null\<close>.
\<close>

theorem unparseable_hex_gets_ratio_counterexample:
  "hexToRgb (Str (ascii ''zzzzzz'')) = Inr (Fin 0, Fin 0, Fin 0)
   \<and> contrastRatio (Str (ascii ''zzzzzz'')) (Str (ascii ''#ffffff'')) = Some (Fin 21)
   \<and> contrastRatio (Str (ascii ''zzzzzz'')) (Str (ascii ''#ffffff'')) \<noteq> None"
proof -
  have z: "hex_channels (ascii ''zzzzzz'') = (Fin 0, Fin 0, Fin 0)"
    by (simp add: hex_eval)
  show ?thesis
    by (simp add: contrastRatio_def hexToRgb_def z white_channels linearize_0 linearize_1)
qed

section \<open>Properties of the contrast loop\<close>

subsection \<open>One darkening step\<close>

lemma mix_black:
  assumes "0 \<le> a" "0 \<le> t"
  shows "\<exists>m. mix (Fin a) (Fin 0) t = Fin m \<and> 0 \<le> m \<and> m \<le> a \<and> m \<le> 255"
proof -
  have "0 \<le> real_of_int a * t"
    using assms by simp
  then have "real_of_int a + (0 - real_of_int a) * t + 1 / 2 < real_of_int a + 1"
    by (simp add: algebra_simps)
  then have "\<lfloor>real_of_int a + (real_of_int 0 - real_of_int a) * t + 1 / 2\<rfloor> \<le> a"
    by (simp add: floor_le_iff)
  with assms(1) show ?thesis by auto
qed

lemma darken_step:
  assumes ch: "hex_channels f = (Fin r, Fin g, Fin b)"
      and t: "0 \<le> t"
  shows "\<exists>f' r' g' b'. darkenTowardsBlack (Str f) t = Inr f'
           \<and> hex_channels f' = (Fin r', Fin g', Fin b')
           \<and> 0 \<le> r' \<and> r' \<le> r \<and> 0 \<le> g' \<and> g' \<le> g \<and> 0 \<le> b' \<and> b' \<le> b"
proof -
  from hex_channels_range [OF ch]
  have rng: "0 \<le> r" "0 \<le> g" "0 \<le> b" by simp_all
  obtain r' where r': "mix (Fin r) (Fin 0) t = Fin r'" "0 \<le> r'" "r' \<le> r" "r' \<le> 255"
    using mix_black [OF rng(1) t] by blast
  obtain g' where g': "mix (Fin g) (Fin 0) t = Fin g'" "0 \<le> g'" "g' \<le> g" "g' \<le> 255"
    using mix_black [OF rng(2) t] by blast
  obtain b' where b': "mix (Fin b) (Fin 0) t = Fin b'" "0 \<le> b'" "b' \<le> b" "b' \<le> 255"
    using mix_black [OF rng(3) t] by blast
  have d: "darkenTowardsBlack (Str f) t = Inr (rgbToHex (Fin r', Fin g', Fin b'))"
    by (simp add: darkenTowardsBlack_def lerpColor_def hexToRgb_def ch black_channels r' g' b'
        del: mix.simps)
  have rt: "hex_channels (rgbToHex (Fin r', Fin g', Fin b')) = (Fin r', Fin g', Fin b')"
    using hexToRgb_rgbToHex [OF r'(2,4) g'(2,4) b'(2,4)] by (simp add: hexToRgb_def)
  show ?thesis
    using d rt r' g' b' by blast
qed

lemma numeric_colourD:
  "numeric_colour f \<Longrightarrow> \<exists>r g b. hex_channels f = (Fin r, Fin g, Fin b)"
  by (auto simp: numeric_colour_def split: prod.splits number.splits)

lemma numeric_colourI: "hex_channels f = (Fin r, Fin g, Fin b) \<Longrightarrow> numeric_colour f"
  by (simp add: numeric_colour_def)

lemma step_nonneg: "0 \<le> step_size n"
  by (simp add: step_size_def)

lemma loop_body_attempts: "attempts (loop_body gcs fgVar bgVar bg s) = attempts s + 1"
  by (simp add: loop_body_def darkenTowardsBlack_def lerpColor_def hexToRgb_def Let_def
      split: prod.splits)

lemma loop_body_darkens:
  assumes "numeric_colour (fg s)"
  shows "numeric_colour (fg (loop_body gcs fgVar bgVar bg s))
       \<and> num_le (luminance (fg (loop_body gcs fgVar bgVar bg s))) (luminance (fg s))"
proof -
  obtain r g b where ch: "hex_channels (fg s) = (Fin r, Fin g, Fin b)"
    using numeric_colourD [OF assms] by blast
  from darken_step [OF ch step_nonneg [of "attempts s"]]
  obtain f' r' g' b' where d:
    "darkenTowardsBlack (Str (fg s)) (step_size (attempts s)) = Inr f'"
    "hex_channels f' = (Fin r', Fin g', Fin b')"
    "0 \<le> r'" "r' \<le> r" "0 \<le> g'" "g' \<le> g" "0 \<le> b'" "b' \<le> b"
    by blast
  have f: "fg (loop_body gcs fgVar bgVar bg s) = f'"
    by (simp add: loop_body_def Let_def d(1))
  show ?thesis
    unfolding f using relativeLuminance_mono [OF d(3-8)]
    by (simp add: numeric_colourI [OF d(2)] luminance_channels d(2) ch del: relativeLuminance.simps)
qed

lemma iterate_numeric:
  "numeric_colour (fg s) \<Longrightarrow> numeric_colour (fg ((loop_body gcs fgVar bgVar bg ^^ i) s))"
  by (induction i) (simp_all add: loop_body_darkens)

lemma non_numeric_luminance:
  assumes "\<not> numeric_colour f"
  shows "luminance f = NaN"
proof -
  obtain a b c where ch: "hex_channels f = (a, b, c)"
    by (cases "hex_channels f") auto
  from assms show ?thesis
    unfolding luminance_channels numeric_colour_def ch
    by (cases a; cases b; cases c) simp_all
qed

lemma num_le_not_lt: "num_le a b \<Longrightarrow> \<not> num_lt b a"
  by (cases a; cases b) simp_all

lemma loop_body_never_brighter:
  "\<not> num_lt (luminance (fg s)) (luminance (fg (loop_body gcs fgVar bgVar bg s)))"
proof (cases "numeric_colour (fg s)")
  case True
  from loop_body_darkens [OF True, of gcs fgVar bgVar bg]
  have "num_le (luminance (fg (loop_body gcs fgVar bgVar bg s))) (luminance (fg s))"
    by simp
  then show ?thesis by (rule num_le_not_lt)
next
  case False
  then have "luminance (fg s) = NaN" by (rule non_numeric_luminance)
  then show ?thesis by simp
qed

lemma iterate_attempts:
  "attempts ((loop_body gcs fgVar bgVar bg ^^ i) s) = attempts s + i"
  by (induction i) (simp_all add: loop_body_attempts)

subsection \<open>The loop as an iteration of its body\<close>

lemma contrast_loop_unroll:
  "\<exists>n. n \<le> 24 - attempts s
       \<and> contrast_loop gcs target fgVar bgVar bg s = (loop_body gcs fgVar bgVar bg ^^ n) s
       \<and> (\<forall>i<n. loop_guard target ((loop_body gcs fgVar bgVar bg ^^ i) s))
       \<and> \<not> loop_guard target ((loop_body gcs fgVar bgVar bg ^^ n) s)"
proof (induction gcs target fgVar bgVar bg s rule: contrast_loop.induct)
  case (1 gcs target fgVar bgVar bg s)
  let ?body = "loop_body gcs fgVar bgVar bg"
  show ?case
  proof (cases "ratio s < target \<and> attempts s < 24")
    case False
    have "contrast_loop gcs target fgVar bgVar bg s =
            (if ratio s < target \<and> attempts s < 24
             then contrast_loop gcs target fgVar bgVar bg (?body s) else s)"
      by (rule contrast_loop.simps)
    also have "\<dots> = s" by (rule if_not_P [OF False])
    finally have stay: "contrast_loop gcs target fgVar bgVar bg s = (?body ^^ 0) s"
      by simp
    have ng: "\<not> loop_guard target ((?body ^^ 0) s)"
      using False by (simp add: loop_guard_def)
    show ?thesis
      by (rule exI [of _ 0]) (simp only: stay ng simp_thms not_less_zero le0)
  next
    case True
    from "1.IH" [OF True]
    obtain n where n:
      "n \<le> 24 - attempts (?body s)"
      "contrast_loop gcs target fgVar bgVar bg (?body s) = (?body ^^ n) (?body s)"
      "\<forall>i<n. loop_guard target ((?body ^^ i) (?body s))"
      "\<not> loop_guard target ((?body ^^ n) (?body s))"
      by blast
    have "contrast_loop gcs target fgVar bgVar bg s =
            (if ratio s < target \<and> attempts s < 24
             then contrast_loop gcs target fgVar bgVar bg (?body s) else s)"
      by (rule contrast_loop.simps)
    also have "\<dots> = contrast_loop gcs target fgVar bgVar bg (?body s)"
      by (rule if_P [OF True])
    also have "\<dots> = (?body ^^ Suc n) s"
      unfolding n(2) by (simp only: funpow_Suc_right o_apply)
    finally have loop: "contrast_loop gcs target fgVar bgVar bg s = (?body ^^ Suc n) s" .
    have bound: "Suc n \<le> 24 - attempts s"
      using n(1) True by (simp add: loop_body_attempts) arith
    have guards: "\<forall>i<Suc n. loop_guard target ((?body ^^ i) s)"
    proof (intro allI impI)
      fix i assume "i < Suc n"
      show "loop_guard target ((?body ^^ i) s)"
      proof (cases i)
        case 0
        with True show ?thesis by (simp add: loop_guard_def)
      next
        case (Suc j)
        with \<open>i < Suc n\<close> have "j < n" by simp
        with n(3) have "loop_guard target ((?body ^^ j) (?body s))" by simp
        then show ?thesis
          unfolding Suc by (simp only: funpow_Suc_right o_apply simp_thms)
      qed
    qed
    have stop: "\<not> loop_guard target ((?body ^^ Suc n) s)"
      using n(4) by (simp only: funpow_Suc_right o_apply simp_thms)
    show ?thesis
      by (rule exI [of _ "Suc n"]) (intro conjI bound loop guards stop)
  qed
qed

subsection \<open>Every darkened colour is numeric\<close>

lemma trim_no_space:
  assumes "\<forall>c \<in> set h. \<not> is_space c"
  shows "trim h = h"
proof -
  have keep: "dropWhile is_space xs = xs" if "\<forall>c \<in> set xs. \<not> is_space c" for xs
    using that by (cases xs) simp_all
  have a: "dropWhile is_space h = h"
    using assms by (rule keep)
  have b: "dropWhile is_space (rev h) = rev h"
    using assms by (intro keep) simp
  show ?thesis by (simp add: trim_def a b)
qed

lemma NaN_text_chars: "\<forall>c \<in> set (ascii ''NaN''). \<not> is_space c \<and> c \<noteq> (cu CHR ''#'')"
  by (simp add: is_space_def literal)

lemma channel_text_chars:
  assumes "byte_or_nan c"
  shows "\<forall>x \<in> set (channel_text c). \<not> is_space x"
proof (cases c)
  case NaN
  then show ?thesis using NaN_text_chars by simp
next
  case (Fin v)
  with assms have v: "0 \<le> v" "v \<le> 255" by simp_all
  have lt: "nat v div 16 < 16" "nat v mod 16 < 16" using v by simp_all
  show ?thesis
    unfolding Fin channel_text_byte [OF v]
    using hexchar_facts(3) [OF lt(1)] hexchar_facts(3) [OF lt(2)] by simp
qed

lemma channel_text_length:
  assumes "byte_or_nan c"
  shows "2 \<le> length (channel_text c)"
proof (cases c)
  case NaN
  then show ?thesis by simp
next
  case (Fin v)
  with assms have v: "0 \<le> v" "v \<le> 255" by simp_all
  show ?thesis
    unfolding Fin channel_text_byte [OF v] by simp
qed

lemma not_three_numeric:
  assumes "length (trim (remove_first (cu CHR ''#'') s)) \<noteq> 3"
  shows "numeric_colour s"
proof -
  have "hex_channels s =
          (Fin (drop_bit 16 (toInt32 (parseInt16 (trim (remove_first (cu CHR ''#'') s)))) AND 255),
           Fin (drop_bit 8 (toInt32 (parseInt16 (trim (remove_first (cu CHR ''#'') s)))) AND 255),
           Fin (toInt32 (parseInt16 (trim (remove_first (cu CHR ''#'') s))) AND 255))"
    unfolding hex_channels_def Let_def by (rule if_not_P [OF assms])
  then show ?thesis by (rule numeric_colourI)
qed

lemma rgbToHex_numeric:
  assumes "byte_or_nan c0" "byte_or_nan c1" "byte_or_nan c2"
  shows "numeric_colour (rgbToHex (c0, c1, c2))"
proof -
  let ?h = "channel_text c0 @ channel_text c1 @ channel_text c2"
  note s0 = channel_text_chars [OF assms(1)]
  note s1 = channel_text_chars [OF assms(2)]
  note s2 = channel_text_chars [OF assms(3)]
  have "\<forall>c \<in> set ?h. \<not> is_space c" using s0 s1 s2 by (simp add: ball_Un)
  then have tr: "trim ?h = ?h" by (rule trim_no_space)
  have "6 \<le> length ?h"
    using channel_text_length [OF assms(1)] channel_text_length [OF assms(2)]
      channel_text_length [OF assms(3)] by simp
  then have len: "length ?h \<noteq> 3" by simp
  have "trim (remove_first (cu CHR ''#'') (rgbToHex (c0, c1, c2))) = ?h"
    by (simp add: rgbToHex_def tr)
  then show ?thesis using len by (intro not_three_numeric) simp
qed

lemma mix_shape: "0 \<le> t \<Longrightarrow> byte_or_nan (mix a (Fin 0) t)"
  by (cases a) simp_all

lemma loop_body_numeric: "numeric_colour (fg (loop_body gcs fgVar bgVar bg s))"
proof -
  obtain a0 a1 a2 where ch: "hex_channels (fg s) = (a0, a1, a2)"
    by (cases "hex_channels (fg s)") auto
  have t: "0 \<le> step_size (attempts s)" by (rule step_nonneg)
  have f: "fg (loop_body gcs fgVar bgVar bg s) =
             rgbToHex (mix a0 (Fin 0) (step_size (attempts s)),
                       mix a1 (Fin 0) (step_size (attempts s)),
                       mix a2 (Fin 0) (step_size (attempts s)))"
    by (simp add: loop_body_def darkenTowardsBlack_def lerpColor_def hexToRgb_def ch
        black_channels Let_def del: mix.simps)
  show ?thesis
    unfolding f by (intro rgbToHex_numeric mix_shape t)
qed

subsection \<open>The bound and the luminance\<close>

lemma white_start:
  "start_pair (example_gcs (ascii ''#ffffff'')) (ascii ''--text'') (ascii ''--brand-muted'') [] False
     = \<lparr>fg = (ascii ''#ffffff''), ratio = 1, attempts = 0, style = [], changed = False\<rparr>"
  by (simp add: start_pair_def example_gcs_def or_default_def trim_examples
      contrastRatio_def hexToRgb_def white_channels linearize_1)

lemma white_step:
  "fg (loop_body (example_gcs (ascii ''#ffffff'')) (ascii ''--text'') (ascii ''--brand-muted'') (ascii ''#ffffff'')
         \<lparr>fg = (ascii ''#ffffff''), ratio = 1, attempts = 0, style = [], changed = False\<rparr>) = (ascii ''#f0f0f0'')"
  by (simp add: loop_body_def darkenTowardsBlack_def lerpColor_def hexToRgb_def white_channels
      black_channels step_size_def rgbToHex_def padStart2_def toString16.simps Let_def)
    (simp add: literal)

text \<open>
  C4. For every pair the loop runs \<open>n\<close> times with \<open>n \<le> 24\<close>: the result is the
  \<open>n\<close>-fold application of the loop body to the starting state, the loop condition
  holds before each of these runs and fails after the last, and \<open>attempts\<close> ends at
  \<open>n\<close>. In no run is the relative luminance of the foreground after the run greater
  than its luminance before the run (the comparison of JavaScript numbers, which a
  \<open>NaN\<close> luminance never satisfies). Moreover, in every run but the first the luminance
  after the run is less than or equal to the luminance before it, and so it is in the
  first run when \<open>hexToRgb\<close> reads the starting foreground as three numbers (no \<open>NaN\<close>
  channel). Luminances are computed in exact real arithmetic.
\<close>

theorem contrast_fix_bounded_and_darkening:
  "\<exists>n\<le>24.
     fix_pair gcs target fgVar bgVar st ch =
       (loop_body gcs fgVar bgVar (or_default (gcs st bgVar) (ascii ''#ffffff'')) ^^ n)
         (start_pair gcs fgVar bgVar st ch)
     \<and> attempts (fix_pair gcs target fgVar bgVar st ch) = n
     \<and> (\<forall>i<n. loop_guard target
                  ((loop_body gcs fgVar bgVar (or_default (gcs st bgVar) (ascii ''#ffffff'')) ^^ i)
                     (start_pair gcs fgVar bgVar st ch)))
     \<and> \<not> loop_guard target
           ((loop_body gcs fgVar bgVar (or_default (gcs st bgVar) (ascii ''#ffffff'')) ^^ n)
              (start_pair gcs fgVar bgVar st ch))
     \<and> (\<forall>i<n. \<not> num_lt
              (luminance (fg ((loop_body gcs fgVar bgVar
                                 (or_default (gcs st bgVar) (ascii ''#ffffff'')) ^^ i)
                                (start_pair gcs fgVar bgVar st ch))))
              (luminance (fg ((loop_body gcs fgVar bgVar
                                 (or_default (gcs st bgVar) (ascii ''#ffffff'')) ^^ Suc i)
                                (start_pair gcs fgVar bgVar st ch)))))
     \<and> (\<forall>i<n. 0 < i \<or> numeric_colour (fg (start_pair gcs fgVar bgVar st ch)) \<longrightarrow>
            num_le
              (luminance (fg ((loop_body gcs fgVar bgVar
                                 (or_default (gcs st bgVar) (ascii ''#ffffff'')) ^^ Suc i)
                                (start_pair gcs fgVar bgVar st ch))))
              (luminance (fg ((loop_body gcs fgVar bgVar
                                 (or_default (gcs st bgVar) (ascii ''#ffffff'')) ^^ i)
                                (start_pair gcs fgVar bgVar st ch)))))"
proof -
  define bg where "bg = or_default (gcs st bgVar) (ascii ''#ffffff'')"
  define s0 where "s0 = start_pair gcs fgVar bgVar st ch"
  let ?body = "loop_body gcs fgVar bgVar bg"
  have a0: "attempts s0 = 0" by (simp add: s0_def start_pair_def Let_def)
  obtain n where n:
    "n \<le> 24 - attempts s0"
    "contrast_loop gcs target fgVar bgVar bg s0 = (?body ^^ n) s0"
    "\<forall>i<n. loop_guard target ((?body ^^ i) s0)"
    "\<not> loop_guard target ((?body ^^ n) s0)"
    using contrast_loop_unroll [of s0 gcs target fgVar bgVar bg] by blast
  have le: "n \<le> 24" using n(1) a0 by simp
  have run: "fix_pair gcs target fgVar bgVar st ch = (?body ^^ n) s0"
    using n(2) by (simp add: fix_pair_def bg_def s0_def)
  have att: "attempts (fix_pair gcs target fgVar bgVar st ch) = n"
    unfolding run by (simp add: iterate_attempts a0)
  have never: "\<forall>i<n. \<not> num_lt (luminance (fg ((?body ^^ i) s0)))
                               (luminance (fg ((?body ^^ Suc i) s0)))"
  proof (intro allI impI)
    fix i :: nat
    have "\<not> num_lt (luminance (fg ((?body ^^ i) s0)))
                   (luminance (fg (?body ((?body ^^ i) s0))))"
      by (rule loop_body_never_brighter)
    then show "\<not> num_lt (luminance (fg ((?body ^^ i) s0)))
                        (luminance (fg ((?body ^^ Suc i) s0)))"
      by simp
  qed
  have lum: "\<forall>i<n. 0 < i \<or> numeric_colour (fg s0) \<longrightarrow>
          num_le (luminance (fg ((?body ^^ Suc i) s0))) (luminance (fg ((?body ^^ i) s0)))"
  proof (intro allI impI)
    fix i :: nat
    assume "i < n" and start: "0 < i \<or> numeric_colour (fg s0)"
    from start have "numeric_colour (fg ((?body ^^ i) s0))"
    proof
      assume "0 < i"
      then obtain j where "i = Suc j" by (cases i) auto
      then show ?thesis by (simp add: loop_body_numeric)
    next
      assume "numeric_colour (fg s0)"
      then show ?thesis by (rule iterate_numeric)
    qed
    from loop_body_darkens [OF this]
    show "num_le (luminance (fg ((?body ^^ Suc i) s0))) (luminance (fg ((?body ^^ i) s0)))"
      by simp
  qed
  show ?thesis
    unfolding bg_def [symmetric] s0_def [symmetric]
    by (rule exI [of _ n]) (intro conjI le run att n(3) n(4) never lum)
qed

text \<open>
  White text on a white background: the loop runs at least once, and its first run takes
  \<open>#ffffff\<close> to \<open>#f0f0f0\<close>, which is not brighter.
\<close>

theorem contrast_fix_bounded_and_darkening_witness:
  "numeric_colour (ascii ''#ffffff'')
   \<and> attempts (fix_pair (example_gcs (ascii ''#ffffff'')) 4.5 (ascii ''--text'') (ascii ''--brand-muted'') [] False) \<le> 24
   \<and> \<not> num_lt (luminance (ascii ''#ffffff'')) (luminance (ascii ''#f0f0f0''))
   \<and> num_le (luminance (ascii ''#f0f0f0'')) (luminance (ascii ''#ffffff''))"
proof -
  let ?gcs = "example_gcs (ascii ''#ffffff'')"
  let ?body = "loop_body ?gcs (ascii ''--text'') (ascii ''--brand-muted'') (ascii ''#ffffff'')"
  let ?s0 = "\<lparr>fg = (ascii ''#ffffff''), ratio = 1, attempts = 0, style = [], changed = False\<rparr>"
  have bg: "or_default (?gcs [] (ascii ''--brand-muted'')) (ascii ''#ffffff'') = (ascii ''#ffffff'')"
    by (simp add: example_gcs_def or_default_def trim_examples)
  have num: "numeric_colour (ascii ''#ffffff'')"
    by (simp add: numeric_colour_def white_channels)
  have g0: "loop_guard 4.5 ?s0" by (simp add: loop_guard_def)
  from contrast_fix_bounded_and_darkening [of ?gcs "4.5" "(ascii ''--text'')" "(ascii ''--brand-muted'')" "[]" False]
  obtain n where n: "n \<le> 24"
    "attempts (fix_pair ?gcs 4.5 (ascii ''--text'') (ascii ''--brand-muted'') [] False) = n"
    "\<not> loop_guard 4.5 ((?body ^^ n) ?s0)"
    "\<forall>i<n. \<not> num_lt (luminance (fg ((?body ^^ i) ?s0))) (luminance (fg ((?body ^^ Suc i) ?s0)))"
    "\<forall>i<n. 0 < i \<or> numeric_colour (fg ?s0) \<longrightarrow>
       num_le (luminance (fg ((?body ^^ Suc i) ?s0))) (luminance (fg ((?body ^^ i) ?s0)))"
    unfolding white_start bg by blast
  have "n \<noteq> 0" using n(3) g0 by (cases n) auto
  then have pos: "0 < n" by simp
  have "numeric_colour (fg ?s0)" using num by simp
  with n(5) pos
  have "num_le (luminance (fg ((?body ^^ Suc 0) ?s0))) (luminance (fg ((?body ^^ 0) ?s0)))"
    by blast
  then have le: "num_le (luminance (ascii ''#f0f0f0'')) (luminance (ascii ''#ffffff''))"
    by (simp add: white_step)
  from n(4) pos
  have "\<not> num_lt (luminance (fg ((?body ^^ 0) ?s0))) (luminance (fg ((?body ^^ Suc 0) ?s0)))"
    by blast
  then have nlt: "\<not> num_lt (luminance (ascii ''#ffffff'')) (luminance (ascii ''#f0f0f0''))"
    by (simp add: white_step)
  from num n(1,2) nlt le show ?thesis by simp
qed

end
